theory Spec2Isabelle
  imports Main
begin

section \<open>Values, exceptions and the outside world\<close>

text \<open>
  The values that travel over XML-RPC and through the command line: None, booleans,
  integers, strings, lists and dictionaries. A dictionary is the list of its items in
  the order in which \<^verbatim>\<open>keys()\<close> yields them; its keys are distinct strings.
\<close>

datatype pyval =
    PNone
  | PBool bool
  | PInt int
  | PStr string
  | PList "pyval list"
  | PDict "(string \<times> pyval) list"

text \<open>Python's truth value of an object, as \<^verbatim>\<open>if data:\<close> and \<^verbatim>\<open>not revision\<close> read it.\<close>

fun truthy :: "pyval \<Rightarrow> bool" where
  "truthy PNone = False"
| "truthy (PBool b) = b"
| "truthy (PInt i) = (i \<noteq> 0)"
| "truthy (PStr s) = (s \<noteq> [])"
| "truthy (PList xs) = (xs \<noteq> [])"
| "truthy (PDict kvs) = (kvs \<noteq> [])"

text \<open>
  An object handed to an exception constructor is either an instance of
  \<^verbatim>\<open>xmlrpclib.Fault\<close>, with its \<^verbatim>\<open>faultCode\<close> and \<^verbatim>\<open>faultString\<close>, or some other value.
\<close>

datatype pyobj =
    Fault (faultCode: int) (faultString: string)
  | Obj pyval

fun isinstance_Fault :: "pyobj \<Rightarrow> bool" where
  "isinstance_Fault (Fault c m) = True"
| "isinstance_Fault (Obj v) = False"

text \<open>\<^verbatim>\<open>class DokuWikiXMLRPCError\<close>: the two attributes its constructor sets.\<close>

record xmlrpc_error =
  page_id :: int
  message :: pyobj

definition DokuWikiXMLRPCError_init :: "pyobj \<Rightarrow> xmlrpc_error" where
  "DokuWikiXMLRPCError_init obj =
     (if isinstance_Fault obj
      then \<lparr>page_id = faultCode obj, message = Obj (PStr (faultString obj))\<rparr>
      else \<lparr>page_id = 0, message = obj\<rparr>)"

text \<open>
  Every exception the program can end with. \<open>XmlrpcFault\<close> is a raw
  \<^verbatim>\<open>xmlrpclib.Fault\<close> in flight; \<open>LibraryError\<close> is any other exception of urllib2,
  xmlrpclib or the socket layer (a refused connection, a protocol error), named by its
  class; \<open>TypeError\<close> and \<open>OverflowError\<close> are also what xmlrpclib raises for a
  parameter it cannot marshal; \<open>SystemExit\<close> is what \<^verbatim>\<open>parser.error\<close> ends with.
\<close>

datatype error =
    DokuWikiXMLRPCError xmlrpc_error
  | DokuWikiURLError string
  | XmlrpcFault int string
  | LibraryError string
  | AttributeError
  | TypeError
  | OverflowError
  | SystemExit int

text \<open>
  What the network is asked, in order: the calls of \<^verbatim>\<open>urlopen\<close>, and the XML-RPC
  requests that xmlrpclib sends (server proxy, procedure, parameters), one entry for each
  time a request goes out.
\<close>

datatype event =
    UrlOpen string
  | Rpc string string "pyval list"

fun is_Rpc :: "event \<Rightarrow> bool" where
  "is_Rpc (Rpc proxy name params) = True"
| "is_Rpc (UrlOpen u) = False"

datatype url_reply = UrlOk | UrlValueError | UrlHTTPError | UrlOtherError string

text \<open>
  The end of one request that was sent: a response, a fault, a connection that was
  dropped (\<^verbatim>\<open>socket.error\<close> with ECONNRESET, ECONNABORTED or EPIPE, or
  \<^verbatim>\<open>httplib.BadStatusLine\<close>, named by its class), or any other failure.
\<close>

datatype reply = Response pyval | FaultReply int string | Dropped string | Broken string

text \<open>
  Everything outside the module and its libraries' control flow is a parameter: how
  \<^verbatim>\<open>urlopen\<close> ends and how each request that is sent ends (each may depend on all
  earlier requests), \<^verbatim>\<open>urlencode\<close>, whether
  \<^verbatim>\<open>xmlrpclib.ServerProxy\<close> accepts a URL (it returns the proxy, identified by its URL, or
  raises IOError), the clock, \<^verbatim>\<open>str\<close> of an object that is not a string, and the
  program name optparse prints.
\<close>

record world =
  urlopen :: "event list \<Rightarrow> string \<Rightarrow> url_reply"
  urlencode :: "(string \<times> string) list \<Rightarrow> string"
  ServerProxy :: "string \<Rightarrow> string option"
  server :: "event list \<Rightarrow> string \<Rightarrow> string \<Rightarrow> pyval list \<Rightarrow> reply"
  time :: "event list \<Rightarrow> int"
  py_str :: "pyobj \<Rightarrow> string"
  prog :: string

definition str :: "world \<Rightarrow> pyobj \<Rightarrow> string" where
  "str w obj = (case obj of Obj (PStr s) \<Rightarrow> s | _ \<Rightarrow> py_str w obj)"

section \<open>The client\<close>

text \<open>
  The attributes of a \<^verbatim>\<open>DokuWikiClient\<close>: \<^verbatim>\<open>_url\<close>, \<^verbatim>\<open>_user\<close>, \<^verbatim>\<open>_passwd\<close>,
  \<^verbatim>\<open>_user_agent\<close>, \<^verbatim>\<open>_xmlrpc\<close> and \<^verbatim>\<open>dokuwiki_version\<close>. The last two do not exist
  until the constructor assigns them.
\<close>

record client =
  self_url :: string
  self_user :: string
  self_passwd :: string
  self_user_agent :: string
  self_xmlrpc :: "string option"
  self_dokuwiki_version :: "pyval option"

text \<open>The option values and remaining arguments of the optparse parser.\<close>

record parser =
  values_user :: "string option"
  values_wiki :: "string option"
  values_passwd :: "string option"
  values_timestamp :: "int option"
  rargs :: "string list"

text \<open>
  The state of one process: the client object, the parser, the class attributes
  \<^verbatim>\<open>xmlrpclib.Transport.user_agent\<close> and \<^verbatim>\<open>xmlrpclib.SafeTransport.user_agent\<close>, the requests
  sent so far, and what has been written to the two output streams (one entry per
  \<^verbatim>\<open>print\<close> statement, without the newline that \<^verbatim>\<open>print\<close> appends, and one entry
  per \<^verbatim>\<open>write\<close>).
\<close>

record state =
  self :: client
  parser :: parser
  Transport_user_agent :: string
  SafeTransport_user_agent :: string
  trace :: "event list"
  stdout :: "string list"
  stderr :: "string list"

definition version :: string where
  "version = ''0.1''"

text \<open>
  What xmlrpclib does with a call of a method of the server proxy. First it marshals the
  parameters, in order, with \<^verbatim>\<open>allow_none\<close> off as \<^verbatim>\<open>ServerProxy(url)\<close> leaves it:
  None raises TypeError, an integer outside 32 bits raises OverflowError, a list or a
  dictionary is marshalled item by item, and the first parameter that fails ends the call
  before anything is sent.
\<close>

fun first_error :: "error option list \<Rightarrow> error option" where
  "first_error [] = None"
| "first_error (Some e # rest) = Some e"
| "first_error (None # rest) = first_error rest"

fun marshal_error :: "pyval \<Rightarrow> error option" where
  "marshal_error PNone = Some TypeError"
| "marshal_error (PBool b) = None"
| "marshal_error (PInt i) = (if i > 2147483647 \<or> i < - 2147483648 then Some OverflowError else None)"
| "marshal_error (PStr s) = None"
| "marshal_error (PList xs) = first_error (map marshal_error xs)"
| "marshal_error (PDict kvs) = first_error (map (\<lambda>kv. marshal_error (snd kv)) kvs)"

text \<open>
  Then \<^verbatim>\<open>Transport.request\<close> sends the request, and sends it a second time when the
  first ends with a dropped connection (\<^verbatim>\<open>for i in (0, 1)\<close>); what the second ends
  with is final. A response is returned, a fault is raised as \<^verbatim>\<open>xmlrpclib.Fault\<close>,
  any other failure as the exception it is.
\<close>

definition Transport_request :: "world \<Rightarrow> string \<Rightarrow> string \<Rightarrow> pyval list \<Rightarrow> state \<Rightarrow> (error + pyval) \<times> state" where
  "Transport_request w proxy name params s =
     (let s1 = s\<lparr>trace := trace s @ [Rpc proxy name params]\<rparr>
      in case server w (trace s) proxy name params of
           Response v \<Rightarrow> (Inr v, s1)
         | FaultReply c m \<Rightarrow> (Inl (XmlrpcFault c m), s1)
         | Broken e \<Rightarrow> (Inl (LibraryError e), s1)
         | Dropped e \<Rightarrow>
             (let s2 = s1\<lparr>trace := trace s1 @ [Rpc proxy name params]\<rparr>
              in case server w (trace s1) proxy name params of
                   Response v \<Rightarrow> (Inr v, s2)
                 | FaultReply c m \<Rightarrow> (Inl (XmlrpcFault c m), s2)
                 | Broken e2 \<Rightarrow> (Inl (LibraryError e2), s2)
                 | Dropped e2 \<Rightarrow> (Inl (LibraryError e2), s2)))"

text \<open>
  A call \<^verbatim>\<open>self._xmlrpc.<name>(*params)\<close> of the module. Without the attribute
  \<^verbatim>\<open>_xmlrpc\<close> the lookup raises AttributeError; with it, the call is xmlrpclib's.
\<close>

definition remote_call :: "world \<Rightarrow> string \<Rightarrow> pyval list \<Rightarrow> state \<Rightarrow> (error + pyval) \<times> state" where
  "remote_call w name params s =
     (case self_xmlrpc (self s) of
        None \<Rightarrow> (Inl AttributeError, s)
      | Some proxy \<Rightarrow>
          (case first_error (map marshal_error params) of
             Some e \<Rightarrow> (Inl e, s)
           | None \<Rightarrow> Transport_request w proxy name params s))"

text \<open>\<^verbatim>\<open>except xmlrpclib.Fault, fault: raise DokuWikiXMLRPCError(fault)\<close>\<close>

definition except_Fault :: "(error + 'a) \<times> state \<Rightarrow> (error + 'a) \<times> state" where
  "except_Fault rs =
     (case rs of
        (Inl (XmlrpcFault c m), s) \<Rightarrow> (Inl (DokuWikiXMLRPCError (DokuWikiXMLRPCError_init (Fault c m))), s)
      | _ \<Rightarrow> rs)"

definition xmlrpc_init :: "world \<Rightarrow> state \<Rightarrow> (error + string) \<times> state" where
  "xmlrpc_init w s =
     (let s1 = s\<lparr>trace := trace s @ [UrlOpen (self_url (self s) @ ''/lib/exe/xmlrpc.php?'')]\<rparr>
      in case urlopen w (trace s) (self_url (self s) @ ''/lib/exe/xmlrpc.php?'') of
           UrlValueError \<Rightarrow> (Inl (DokuWikiURLError (self_url (self s))), s1)
         | UrlHTTPError \<Rightarrow> (Inl (DokuWikiURLError (self_url (self s))), s1)
         | UrlOtherError e \<Rightarrow> (Inl (LibraryError e), s1)
         | UrlOk \<Rightarrow>
             (let url = self_url (self s) @ ''/lib/exe/xmlrpc.php?''
                          @ urlencode w [(''u'', self_user (self s)), (''p'', self_passwd (self s))];
                  s2 = s1\<lparr>Transport_user_agent := self_user_agent (self s),
                          SafeTransport_user_agent := self_user_agent (self s)\<rparr>
              in case ServerProxy w url of
                   None \<Rightarrow> (Inl (LibraryError ''IOError''), s2)
                 | Some proxy \<Rightarrow> (Inr proxy, s2)))"

definition dokuwiki_version :: "world \<Rightarrow> state \<Rightarrow> (error + pyval) \<times> state" where
  "dokuwiki_version w s = except_Fault (remote_call w ''dokuwiki.getVersion'' [] s)"

text \<open>
  \<^verbatim>\<open>DokuWikiClient.__init__\<close>. The first four assignments create the attributes; the
  result of the first \<^verbatim>\<open>_xmlrpc_init()\<close> is dropped, that of the second is stored.
\<close>

definition DokuWikiClient_init :: "world \<Rightarrow> string \<Rightarrow> string \<Rightarrow> string \<Rightarrow> state \<Rightarrow> (error + unit) \<times> state" where
  "DokuWikiClient_init w url user passwd s =
     (let s1 = s\<lparr>self := \<lparr>self_url = url, self_user = user, self_passwd = passwd,
                          self_user_agent = ''DokuWikiXMLRPC '' @ version @ ''by (www.chimeric.de)'',
                          self_xmlrpc = None, self_dokuwiki_version = None\<rparr>\<rparr>
      in case xmlrpc_init w s1 of
           (Inl e, s2) \<Rightarrow> (Inl e, s2)
         | (Inr dropped, s2) \<Rightarrow>
             (case xmlrpc_init w s2 of
                (Inl e, s3) \<Rightarrow> (Inl e, s3)
              | (Inr proxy, s3) \<Rightarrow>
                  (case except_Fault (dokuwiki_version w (s3\<lparr>self := (self s3)\<lparr>self_xmlrpc := Some proxy\<rparr>\<rparr>)) of
                     (Inl e, s4) \<Rightarrow> (Inl e, s4)
                   | (Inr v, s4) \<Rightarrow> (Inr (), s4\<lparr>self := (self s4)\<lparr>self_dokuwiki_version := Some v\<rparr>\<rparr>))))"

definition rpc_version_supported :: "world \<Rightarrow> state \<Rightarrow> (error + pyval) \<times> state" where
  "rpc_version_supported w s = except_Fault (remote_call w ''wiki.getRPCVersionSupported'' [] s)"

text \<open>The default of \<^verbatim>\<open>revision\<close> is None.\<close>

definition page :: "world \<Rightarrow> pyval \<Rightarrow> pyval \<Rightarrow> state \<Rightarrow> (error + pyval) \<times> state" where
  "page w pageid revision s =
     except_Fault
       (if \<not> truthy revision
        then remote_call w ''wiki.getPage'' [pageid] s
        else remote_call w ''wiki.getPageVersion'' [pageid, revision] s)"

text \<open>The default of \<^verbatim>\<open>offset\<close> is 0.\<close>

definition page_versions :: "world \<Rightarrow> pyval \<Rightarrow> pyval \<Rightarrow> state \<Rightarrow> (error + pyval) \<times> state" where
  "page_versions w pageid offset s =
     except_Fault (remote_call w ''wiki.getPageVersions'' [pageid, offset] s)"

definition page_info :: "world \<Rightarrow> pyval \<Rightarrow> pyval \<Rightarrow> state \<Rightarrow> (error + pyval) \<times> state" where
  "page_info w pageid revision s =
     except_Fault
       (if \<not> truthy revision
        then remote_call w ''wiki.getPageInfo'' [pageid] s
        else remote_call w ''wiki.getPageInfoVersion'' [pageid, revision] s)"

definition page_html :: "world \<Rightarrow> pyval \<Rightarrow> pyval \<Rightarrow> state \<Rightarrow> (error + pyval) \<times> state" where
  "page_html w pageid revision s =
     except_Fault
       (if \<not> truthy revision
        then remote_call w ''wiki.getPageHTML'' [pageid] s
        else remote_call w ''wiki.getPageHTMLVersion'' [pageid, revision] s)"

text \<open>
  \<^verbatim>\<open>put_page\<close> (defaults: \<^verbatim>\<open>summary=''\<close>, \<^verbatim>\<open>minor=None\<close>) calls \<^verbatim>\<open>wiki.putPage\<close> in a
  statement of its own, with no \<^verbatim>\<open>return\<close>: when the call succeeds the method ends by
  falling off its body, whose value is None.
\<close>

definition put_page :: "world \<Rightarrow> pyval \<Rightarrow> pyval \<Rightarrow> pyval \<Rightarrow> pyval \<Rightarrow> state \<Rightarrow> (error + pyval) \<times> state" where
  "put_page w pageid text summary minor s =
     except_Fault
       (let params = PDict [(''sum'', summary), (''minor'', minor)]
        in case remote_call w ''wiki.putPage'' [pageid, text, params] s of
             (Inl e, s1) \<Rightarrow> (Inl e, s1)
           | (Inr response, s1) \<Rightarrow> (Inr PNone, s1))"

definition all_pages :: "world \<Rightarrow> state \<Rightarrow> (error + pyval) \<times> state" where
  "all_pages w s = except_Fault (remote_call w ''wiki.getAllPages'' [] s)"

definition backlinks :: "world \<Rightarrow> pyval \<Rightarrow> state \<Rightarrow> (error + pyval) \<times> state" where
  "backlinks w pageid s = except_Fault (remote_call w ''wiki.getBackLinks'' [pageid] s)"

definition links :: "world \<Rightarrow> pyval \<Rightarrow> state \<Rightarrow> (error + pyval) \<times> state" where
  "links w pageid s = except_Fault (remote_call w ''wiki.listLinks'' [pageid] s)"

definition recent_changes :: "world \<Rightarrow> pyval \<Rightarrow> state \<Rightarrow> (error + pyval) \<times> state" where
  "recent_changes w timestamp s = except_Fault (remote_call w ''wiki.getRecentChanges'' [timestamp] s)"

definition acl_check :: "world \<Rightarrow> pyval \<Rightarrow> state \<Rightarrow> (error + pyval) \<times> state" where
  "acl_check w pageid s = except_Fault (remote_call w ''wiki.aclCheck'' [pageid] s)"

text \<open>The two methods whose body is \<^verbatim>\<open>pass\<close>.\<close>

definition put_file :: "world \<Rightarrow> pyval \<Rightarrow> pyval \<Rightarrow> pyval \<Rightarrow> pyval \<Rightarrow> state \<Rightarrow> (error + pyval) \<times> state" where
  "put_file w namespace filename name overwrite s = (Inr PNone, s)"

definition list_files :: "world \<Rightarrow> pyval \<Rightarrow> state \<Rightarrow> (error + pyval) \<times> state" where
  "list_files w namespace s = (Inr PNone, s)"

text \<open>A call of a public method of the client, with its arguments.\<close>

datatype operation =
    Op_rpc_version_supported
  | Op_page pyval pyval
  | Op_page_versions pyval pyval
  | Op_page_info pyval pyval
  | Op_page_html pyval pyval
  | Op_put_page pyval pyval pyval pyval
  | Op_all_pages
  | Op_backlinks pyval
  | Op_links pyval
  | Op_recent_changes pyval
  | Op_acl_check pyval
  | Op_put_file pyval pyval pyval pyval
  | Op_list_files pyval

fun invoke :: "world \<Rightarrow> operation \<Rightarrow> state \<Rightarrow> (error + pyval) \<times> state" where
  "invoke w Op_rpc_version_supported s = rpc_version_supported w s"
| "invoke w (Op_page pageid revision) s = page w pageid revision s"
| "invoke w (Op_page_versions pageid offset) s = page_versions w pageid offset s"
| "invoke w (Op_page_info pageid revision) s = page_info w pageid revision s"
| "invoke w (Op_page_html pageid revision) s = page_html w pageid revision s"
| "invoke w (Op_put_page pageid text summary minor) s = put_page w pageid text summary minor s"
| "invoke w Op_all_pages s = all_pages w s"
| "invoke w (Op_backlinks pageid) s = backlinks w pageid s"
| "invoke w (Op_links pageid) s = links w pageid s"
| "invoke w (Op_recent_changes timestamp) s = recent_changes w timestamp s"
| "invoke w (Op_acl_check pageid) s = acl_check w pageid s"
| "invoke w (Op_put_file namespace filename name overwrite) s = put_file w namespace filename name overwrite s"
| "invoke w (Op_list_files namespace) s = list_files w namespace s"

section \<open>The command-line front end\<close>

text \<open>
  The options that \<^verbatim>\<open>main\<close> registers with \<^verbatim>\<open>action = 'callback'\<close> and
  \<^verbatim>\<open>callback = Callback\<close>, each with its \<^verbatim>\<open>dest\<close>. optparse calls \<^verbatim>\<open>Callback\<close> when it
  meets one of them on the command line, with the option values read so far and the
  arguments that remain.
\<close>

definition callback_options :: "(string \<times> string) list" where
  "callback_options =
     [(''--raw'', ''page''),
      (''--html'', ''page_html''),
      (''--info'', ''page_info''),
      (''--changes'', ''recent_changes''),
      (''--revisions'', ''page_versions''),
      (''--backlinks'', ''backlinks''),
      (''--allpages'', ''all_pages''),
      (''--links'', ''links'')]"

definition usage :: "world \<Rightarrow> string" where
  "usage w = ''Usage: '' @ prog w @ '' -u <username> -w <wikiurl> -p <passwd> [options] [wiki:page]'' @ [CHR 10]"

text \<open>\<^verbatim>\<open>parser.error(msg)\<close> writes the usage and the message to stderr and exits with status 2.\<close>

definition parser_error :: "world \<Rightarrow> string \<Rightarrow> state \<Rightarrow> (error + 'a) \<times> state" where
  "parser_error w msg s =
     (Inl (SystemExit 2), s\<lparr>stderr := stderr s @ [usage w, prog w @ '': error: '' @ msg @ [CHR 10]]\<rparr>)"

definition DokuWikiXMLRPCError_str :: "world \<Rightarrow> xmlrpc_error \<Rightarrow> string" where
  "DokuWikiXMLRPCError_str w e =
     ''<DokuWikiXMLRPCError '' @ str w (Obj (PInt (page_id e))) @ '': '' @ [CHR 39]
       @ str w (message e) @ [CHR 39] @ ''>''"

definition DokuWikiURLError_str :: "string \<Rightarrow> string" where
  "DokuWikiURLError_str url = ''DokuWikiURLError: Could not connect to <'' @ url @ ''>''"

text \<open>An option value that was not given is None, which is as false as the empty string.\<close>

fun opt_value :: "string option \<Rightarrow> string" where
  "opt_value None = []"
| "opt_value (Some x) = x"

fun timestamp_value :: "int option \<Rightarrow> pyval" where
  "timestamp_value None = PNone"
| "timestamp_value (Some t) = PInt t"

text \<open>\<^verbatim>\<open>self._parser.rargs.pop()\<close> takes the last remaining argument.\<close>

definition get_page_id :: "world \<Rightarrow> state \<Rightarrow> (error + pyval) \<times> state" where
  "get_page_id w s =
     (if rargs (parser s) = []
      then parser_error w ''You have to specify a Wiki page.'' s
      else (Inr (PStr (last (rargs (parser s)))),
            s\<lparr>parser := (parser s)\<lparr>rargs := butlast (rargs (parser s))\<rparr>\<rparr>))"

text \<open>
  \<^verbatim>\<open>self.dokuwiki.__getattribute__(option)(*args)\<close>: the bound method of that name, called
  with positional arguments, the parameters left out taking their defaults.
\<close>

definition getattribute :: "string \<Rightarrow> world \<Rightarrow> pyval list \<Rightarrow> state \<Rightarrow> (error + pyval) \<times> state" where
  "getattribute option w args s =
     (if option = ''page'' then
        (case args of [p] \<Rightarrow> page w p PNone s | [p, r] \<Rightarrow> page w p r s | _ \<Rightarrow> (Inl TypeError, s))
      else if option = ''page_html'' then
        (case args of [p] \<Rightarrow> page_html w p PNone s | [p, r] \<Rightarrow> page_html w p r s | _ \<Rightarrow> (Inl TypeError, s))
      else if option = ''page_info'' then
        (case args of [p] \<Rightarrow> page_info w p PNone s | [p, r] \<Rightarrow> page_info w p r s | _ \<Rightarrow> (Inl TypeError, s))
      else if option = ''page_versions'' then
        (case args of [p] \<Rightarrow> page_versions w p (PInt 0) s | [p, off] \<Rightarrow> page_versions w p off s
         | _ \<Rightarrow> (Inl TypeError, s))
      else if option = ''backlinks'' then
        (case args of [p] \<Rightarrow> backlinks w p s | _ \<Rightarrow> (Inl TypeError, s))
      else if option = ''links'' then
        (case args of [p] \<Rightarrow> links w p s | _ \<Rightarrow> (Inl TypeError, s))
      else if option = ''all_pages'' then
        (case args of [] \<Rightarrow> all_pages w s | _ \<Rightarrow> (Inl TypeError, s))
      else if option = ''recent_changes'' then
        (case args of [t] \<Rightarrow> recent_changes w t s | _ \<Rightarrow> (Inl TypeError, s))
      else (Inl AttributeError, s))"

text \<open>
  \<^verbatim>\<open>Callback.dispatch\<close>. For a \<^verbatim>\<open>dest\<close> that no branch names, the source either fails in
  the attribute lookup or returns None, which its caller cannot unpack; no option of
  \<^verbatim>\<open>main\<close> leads there, and the model ends with TypeError.
\<close>

definition dispatch :: "world \<Rightarrow> string \<Rightarrow> state \<Rightarrow> (error + pyval \<times> string) \<times> state" where
  "dispatch w option s =
     (if option = ''page'' \<or> option = ''page_html'' then
        (case get_page_id w s of
           (Inl e, s1) \<Rightarrow> (Inl e, s1)
         | (Inr pageid, s1) \<Rightarrow>
             (case (if \<not> truthy (timestamp_value (values_timestamp (parser s1)))
                    then getattribute option w [pageid] s1
                    else getattribute option w [pageid, timestamp_value (values_timestamp (parser s1))] s1) of
                (Inl e, s2) \<Rightarrow> (Inl e, s2)
              | (Inr data, s2) \<Rightarrow> (Inr (data, ''plain''), s2)))
      else if option = ''backlinks'' then
        (case get_page_id w s of
           (Inl e, s1) \<Rightarrow> (Inl e, s1)
         | (Inr pageid, s1) \<Rightarrow>
             (case getattribute option w [pageid] s1 of
                (Inl e, s2) \<Rightarrow> (Inl e, s2)
              | (Inr data, s2) \<Rightarrow> (Inr (data, ''list''), s2)))
      else if option = ''page_info'' \<or> option = ''page_versions'' \<or> option = ''links'' then
        (case get_page_id w s of
           (Inl e, s1) \<Rightarrow> (Inl e, s1)
         | (Inr pageid, s1) \<Rightarrow>
             (case getattribute option w [pageid] s1 of
                (Inl e, s2) \<Rightarrow> (Inl e, s2)
              | (Inr data, s2) \<Rightarrow> (Inr (data, ''dict''), s2)))
      else if option = ''all_pages'' then
        (case getattribute option w [] s of
           (Inl e, s2) \<Rightarrow> (Inl e, s2)
         | (Inr data, s2) \<Rightarrow> (Inr (data, ''list''), s2))
      else if option = ''recent_changes'' then
        (let s1 = (if \<not> truthy (timestamp_value (values_timestamp (parser s)))
                   then s\<lparr>parser := (parser s)\<lparr>values_timestamp := Some (time w (trace s))\<rparr>\<rparr>
                   else s)
         in case getattribute option w [timestamp_value (values_timestamp (parser s1))] s1 of
              (Inl e, s2) \<Rightarrow> (Inl e, s2)
            | (Inr data, s2) \<Rightarrow> (Inr (data, ''dict''), s2))
      else (Inl TypeError, s))"

text \<open>Whether an object has \<^verbatim>\<open>keys()\<close>: of the values here, a dictionary.\<close>

fun is_mapping :: "pyval \<Rightarrow> bool" where
  "is_mapping (PDict kvs) = True"
| "is_mapping PNone = False"
| "is_mapping (PBool b) = False"
| "is_mapping (PInt i) = False"
| "is_mapping (PStr s) = False"
| "is_mapping (PList xs) = False"

text \<open>What \<^verbatim>\<open>for item in data\<close> runs over; None when the object cannot be iterated.\<close>

fun iter :: "pyval \<Rightarrow> pyval list option" where
  "iter (PList xs) = Some xs"
| "iter (PStr cs) = Some (map (\<lambda>c. PStr [c]) cs)"
| "iter (PDict kvs) = Some (map (\<lambda>kv. PStr (fst kv)) kvs)"
| "iter PNone = None"
| "iter (PBool b) = None"
| "iter (PInt i) = None"

text \<open>\<^verbatim>\<open>'%s: %s' % (key, item[key])\<close>\<close>

definition key_value_line :: "world \<Rightarrow> string \<times> pyval \<Rightarrow> string" where
  "key_value_line w kv = fst kv @ '': '' @ str w (Obj (snd kv))"

text \<open>
  The loop over a list under the format \<^verbatim>\<open>'dict'\<close>: the items of each dictionary, then
  \<^verbatim>\<open>print "\n"\<close>. An item without \<^verbatim>\<open>keys()\<close> ends the loop with AttributeError, after
  the output of the items before it.
\<close>

fun print_dicts :: "world \<Rightarrow> pyval list \<Rightarrow> state \<Rightarrow> (error + unit) \<times> state" where
  "print_dicts w [] s = (Inr (), s)"
| "print_dicts w (PDict kvs # items) s =
     print_dicts w items (s\<lparr>stdout := stdout s @ map (key_value_line w) kvs @ [[CHR 10]]\<rparr>)"
| "print_dicts w (item # items) s = (Inl AttributeError, s)"

text \<open>The body of \<^verbatim>\<open>if data:\<close> in \<^verbatim>\<open>Callback.__init__\<close>, with its guard.\<close>

definition print_result :: "world \<Rightarrow> pyval \<Rightarrow> string \<Rightarrow> state \<Rightarrow> (error + unit) \<times> state" where
  "print_result w data format s =
     (if truthy data then
        (if format = ''plain'' then (Inr (), s\<lparr>stdout := stdout s @ [str w (Obj data)]\<rparr>)
         else if format = ''list'' then
           (case iter data of
              None \<Rightarrow> (Inl TypeError, s)
            | Some items \<Rightarrow> (Inr (), s\<lparr>stdout := stdout s @ map (\<lambda>item. str w (Obj item)) items\<rparr>))
         else if format = ''dict'' then
           (case data of
              PList items \<Rightarrow> print_dicts w items s
            | PDict kvs \<Rightarrow> (Inr (), s\<lparr>stdout := stdout s @ map (key_value_line w) kvs\<rparr>)
            | _ \<Rightarrow> (Inl AttributeError, s))
         else (Inr (), s))
      else (Inr (), s))"

text \<open>
  The \<^verbatim>\<open>try\<close> statement of \<^verbatim>\<open>Callback.__init__\<close>: the two errors of the module end in
  \<^verbatim>\<open>parser.error\<close>, any other exception passes.
\<close>

definition construct :: "world \<Rightarrow> state \<Rightarrow> (error + unit) \<times> state" where
  "construct w s =
     (case DokuWikiClient_init w (opt_value (values_wiki (parser s))) (opt_value (values_user (parser s)))
             (opt_value (values_passwd (parser s))) s of
        (Inl (DokuWikiXMLRPCError e), s1) \<Rightarrow> parser_error w (DokuWikiXMLRPCError_str w e) s1
      | (Inl (DokuWikiURLError u), s1) \<Rightarrow> parser_error w (DokuWikiURLError_str u) s1
      | r \<Rightarrow> r)"

text \<open>\<^verbatim>\<open>Callback.__init__(option, opt_str, value, parser)\<close>, with \<open>dest\<close> for \<^verbatim>\<open>option.dest\<close>.\<close>

definition Callback_init :: "world \<Rightarrow> string \<Rightarrow> state \<Rightarrow> (error + unit) \<times> state" where
  "Callback_init w dest s =
     (if opt_value (values_user (parser s)) \<noteq> [] \<and> opt_value (values_wiki (parser s)) \<noteq> []
           \<and> opt_value (values_passwd (parser s)) \<noteq> []
      then
        (case construct w s of
           (Inl e, s1) \<Rightarrow> (Inl e, s1)
         | (Inr u, s1) \<Rightarrow>
             (case dispatch w dest s1 of
                (Inl e, s2) \<Rightarrow> (Inl e, s2)
              | (Inr (data, format), s2) \<Rightarrow> print_result w data format s2))
      else (Inr (), s\<lparr>stdout := stdout s @ [usage w]\<rparr>))"

section \<open>Runs of operations and what a single operation may do\<close>

text \<open>
  A caller that invokes one operation after the other and goes on after an exception:
  the state after each operation is the state before the next.
\<close>

fun invoke_all :: "world \<Rightarrow> operation list \<Rightarrow> state \<Rightarrow> state" where
  "invoke_all w [] s = s"
| "invoke_all w (op # ops) s = invoke_all w ops (snd (invoke w op s))"

text \<open>
  What one call of a method of the proxy sends and what it ends with, read off
  \<open>remote_call\<close> and \<open>Transport_request\<close> as functions of the requests sent before: no
  request when a parameter cannot be marshalled, the request twice when the first one
  ends with a dropped connection, the request once otherwise.
\<close>

definition wire_requests :: "world \<Rightarrow> event list \<Rightarrow> string \<Rightarrow> string \<Rightarrow> pyval list \<Rightarrow> event list" where
  "wire_requests w tr proxy name params =
     (case first_error (map marshal_error params) of
        Some e \<Rightarrow> []
      | None \<Rightarrow>
          (case server w tr proxy name params of
             Dropped e \<Rightarrow> [Rpc proxy name params, Rpc proxy name params]
           | Response v \<Rightarrow> [Rpc proxy name params]
           | FaultReply c m \<Rightarrow> [Rpc proxy name params]
           | Broken e \<Rightarrow> [Rpc proxy name params]))"

definition final_reply :: "world \<Rightarrow> event list \<Rightarrow> string \<Rightarrow> string \<Rightarrow> pyval list \<Rightarrow> error + pyval" where
  "final_reply w tr proxy name params =
     (case server w tr proxy name params of
        Response v \<Rightarrow> Inr v
      | FaultReply c m \<Rightarrow> Inl (XmlrpcFault c m)
      | Broken e \<Rightarrow> Inl (LibraryError e)
      | Dropped e \<Rightarrow> Inl (LibraryError e))"

definition call_result :: "world \<Rightarrow> event list \<Rightarrow> string \<Rightarrow> string \<Rightarrow> pyval list \<Rightarrow> error + pyval" where
  "call_result w tr proxy name params =
     (case first_error (map marshal_error params) of
        Some e \<Rightarrow> Inl e
      | None \<Rightarrow>
          (case server w tr proxy name params of
             Dropped e \<Rightarrow> final_reply w (tr @ [Rpc proxy name params]) proxy name params
           | Response v \<Rightarrow> Inr v
           | FaultReply c m \<Rightarrow> Inl (XmlrpcFault c m)
           | Broken e \<Rightarrow> Inl (LibraryError e)))"

text \<open>
  The outcomes a call of an operation in state \<open>s\<close> can have: the stubs return None and
  a client without proxy raises AttributeError, the state staying as it is; or the
  operation makes one call of a method of the proxy, and returns its result, or None in
  its place, or raises what it raised, a fault as \<^verbatim>\<open>DokuWikiXMLRPCError\<close>.
\<close>

definition one_proxy_call :: "world \<Rightarrow> state \<Rightarrow> (error + pyval) \<times> state \<Rightarrow> bool" where
  "one_proxy_call w s rs =
     ((rs = (Inr PNone, s) \<or> rs = (Inl AttributeError, s))
      \<or> (\<exists>proxy name params.
            self_xmlrpc (self s) = Some proxy
            \<and> snd rs = s\<lparr>trace := trace s @ wire_requests w (trace s) proxy name params\<rparr>
            \<and> (fst rs = fst (except_Fault (call_result w (trace s) proxy name params, s))
                 \<or> fst rs = Inr PNone \<and> (\<exists>v. call_result w (trace s) proxy name params = Inr v))))"

text \<open>
  The one call of a method of the proxy that \<open>dispatch\<close> makes for a \<^verbatim>\<open>dest\<close> of
  \<open>callback_options\<close>, as procedure and parameters, read off \<open>dispatch\<close> and the method
  it calls: the page is the last remaining argument, the timestamp the value of
  \<^verbatim>\<open>--time\<close>, and for \<^verbatim>\<open>recent_changes\<close> the clock when there is none.
\<close>

definition dispatched_call :: "world \<Rightarrow> string \<Rightarrow> state \<Rightarrow> string \<times> pyval list" where
  "dispatched_call w dest s =
     (let pageid = PStr (last (rargs (parser s)));
          timestamp = timestamp_value (values_timestamp (parser s))
      in if dest = ''page'' then
           (if truthy timestamp then (''wiki.getPageVersion'', [pageid, timestamp])
            else (''wiki.getPage'', [pageid]))
         else if dest = ''page_html'' then
           (if truthy timestamp then (''wiki.getPageHTMLVersion'', [pageid, timestamp])
            else (''wiki.getPageHTML'', [pageid]))
         else if dest = ''page_info'' then (''wiki.getPageInfo'', [pageid])
         else if dest = ''page_versions'' then (''wiki.getPageVersions'', [pageid, PInt 0])
         else if dest = ''backlinks'' then (''wiki.getBackLinks'', [pageid])
         else if dest = ''links'' then (''wiki.listLinks'', [pageid])
         else if dest = ''all_pages'' then (''wiki.getAllPages'', [])
         else (''wiki.getRecentChanges'',
               [if truthy timestamp then timestamp else PInt (time w (trace s))]))"

section \<open>A concrete wiki\<close>

text \<open>
  A small remote wiki to run the definitions on: it is reachable, reports a version,
  accepts every page it is sent, and faults on \<^verbatim>\<open>wiki.aclCheck\<close>.
\<close>

definition demo_server :: "event list \<Rightarrow> string \<Rightarrow> string \<Rightarrow> pyval list \<Rightarrow> reply" where
  "demo_server tr proxy name params =
     (if name = ''dokuwiki.getVersion'' then Response (PStr ''Release 2008-05-05'')
      else if name = ''wiki.putPage'' then Response (PBool True)
      else if name = ''wiki.getPage'' then Response (PStr ''Hello'')
      else if name = ''wiki.getAllPages'' then Response (PList [PStr ''start'', PStr ''wiki:syntax''])
      else if name = ''wiki.getPageInfo''
        then Response (PDict [(''name'', PStr ''start''), (''author'', PStr ''alice'')])
      else if name = ''wiki.listLinks''
        then Response (PList [PDict [(''type'', PStr ''local''), (''page'', PStr ''wiki:syntax'')],
                              PDict [(''type'', PStr ''extern'')]])
      else if name = ''wiki.getBackLinks'' then Response (PList [])
      else if name = ''wiki.aclCheck'' then FaultReply 1 ''No such page''
      else Broken ''socket.error'')"

definition demo_world :: world where
  "demo_world =
     \<lparr>urlopen = (\<lambda>tr u. UrlOk),
      urlencode = (\<lambda>kvs. concat (map (\<lambda>kv. fst kv @ ''='' @ snd kv @ ''&'') kvs)),
      ServerProxy = Some,
      server = demo_server,
      time = (\<lambda>tr. 1225000000),
      py_str = (\<lambda>obj. case obj of Obj (PList xs) \<Rightarrow> ''[...]'' | Obj (PDict kvs) \<Rightarrow> ''{...}'' | _ \<Rightarrow> ''?''),
      prog = ''dokuwikixmlrpc.py''\<rparr>"

definition demo_parser :: "string list \<Rightarrow> parser" where
  "demo_parser args =
     \<lparr>values_user = Some ''alice'', values_wiki = Some ''http://wiki'', values_passwd = Some ''secret'',
      values_timestamp = None, rargs = args\<rparr>"

text \<open>A process that has done nothing yet, at the moment optparse meets an option.\<close>

definition demo_state :: "string list \<Rightarrow> state" where
  "demo_state args =
     \<lparr>self = \<lparr>self_url = [], self_user = [], self_passwd = [], self_user_agent = [],
              self_xmlrpc = None, self_dokuwiki_version = None\<rparr>,
      parser = demo_parser args,
      Transport_user_agent = [], SafeTransport_user_agent = [],
      trace = [], stdout = [], stderr = []\<rparr>"

text \<open>The same process after \<^verbatim>\<open>DokuWikiClient('http://wiki', 'alice', 'secret')\<close>.\<close>

definition demo_connected :: state where
  "demo_connected = snd (DokuWikiClient_init demo_world ''http://wiki'' ''alice'' ''secret'' (demo_state []))"

text \<open>
  The same wiki behind a connection that drops the first request of
  \<^verbatim>\<open>wiki.getRecentChanges\<close> and answers when the request comes again.
\<close>

definition dropping_server :: "event list \<Rightarrow> string \<Rightarrow> string \<Rightarrow> pyval list \<Rightarrow> reply" where
  "dropping_server tr proxy name params =
     (if name = ''wiki.getRecentChanges''
      then (if Rpc proxy name params \<in> set tr then Response (PList []) else Dropped ''socket.error'')
      else demo_server tr proxy name params)"

definition dropping_world :: world where
  "dropping_world = demo_world\<lparr>server := dropping_server\<rparr>"

text \<open>
  A wiki whose answers have another structure than the one the flags expect: a list of
  mappings for \<^verbatim>\<open>wiki.getAllPages\<close> (as DokuWiki answers it), a string for
  \<^verbatim>\<open>wiki.getPageInfo\<close>, a list for \<^verbatim>\<open>wiki.getPage\<close>.
\<close>

definition other_server :: "event list \<Rightarrow> string \<Rightarrow> string \<Rightarrow> pyval list \<Rightarrow> reply" where
  "other_server tr proxy name params =
     (if name = ''wiki.getAllPages'' then Response (PList [PDict [(''id'', PStr ''start'')]])
      else if name = ''wiki.getPageInfo'' then Response (PStr ''start'')
      else if name = ''wiki.getPage'' then Response (PList [PStr ''a'', PStr ''b''])
      else demo_server tr proxy name params)"

definition other_world :: world where
  "other_world = demo_world\<lparr>server := other_server\<rparr>"

text \<open>The process at \<^verbatim>\<open>--changes\<close> after \<^verbatim>\<open>--time 2147483648\<close>.\<close>

definition late_state :: state where
  "late_state = (demo_state [])\<lparr>parser := (demo_parser [])\<lparr>values_timestamp := Some 2147483648\<rparr>\<rparr>"

section \<open>Facts about the client\<close>

lemma remote_call_eq:
  "self_xmlrpc (self s) = Some proxy \<Longrightarrow>
     remote_call w name params s =
       (call_result w (trace s) proxy name params,
        s\<lparr>trace := trace s @ wire_requests w (trace s) proxy name params\<rparr>)"
  by (simp add: remote_call_def Transport_request_def call_result_def wire_requests_def final_reply_def
      Let_def split: option.splits reply.splits)

lemma except_Fault_pair: "except_Fault (r, s) = (fst (except_Fault (r, s)), s)"
  by (simp add: except_Fault_def split: sum.splits error.splits)

lemma guarded_call:
  "except_Fault (remote_call w name params s) =
     (case self_xmlrpc (self s) of
        None \<Rightarrow> (Inl AttributeError, s)
      | Some proxy \<Rightarrow>
          (fst (except_Fault (call_result w (trace s) proxy name params, s)),
           s\<lparr>trace := trace s @ wire_requests w (trace s) proxy name params\<rparr>))"
proof (cases "self_xmlrpc (self s)")
  case None
  then show ?thesis by (simp add: remote_call_def except_Fault_def)
next
  case (Some proxy)
  then show ?thesis
    by (simp add: remote_call_eq except_Fault_def split: sum.splits error.splits)
qed

lemma guarded_call_outcome: "one_proxy_call w s (except_Fault (remote_call w name params s))"
proof (cases "self_xmlrpc (self s)")
  case None
  then show ?thesis by (simp add: one_proxy_call_def guarded_call)
next
  case (Some proxy)
  let ?rs = "except_Fault (remote_call w name params s)"
  have "snd ?rs = s\<lparr>trace := trace s @ wire_requests w (trace s) proxy name params\<rparr>
      \<and> fst ?rs = fst (except_Fault (call_result w (trace s) proxy name params, s))"
    using Some by (simp add: guarded_call)
  with Some show ?thesis unfolding one_proxy_call_def by blast
qed

lemma put_page_outcome: "one_proxy_call w s (put_page w pageid body summary minor s)"
proof (cases "self_xmlrpc (self s)")
  case None
  then show ?thesis
    by (simp add: one_proxy_call_def put_page_def remote_call_def except_Fault_def)
next
  case (Some proxy)
  let ?ps = "[pageid, body, PDict [(''sum'', summary), (''minor'', minor)]]"
  let ?rs = "put_page w pageid body summary minor s"
  let ?c = "call_result w (trace s) proxy ''wiki.putPage'' ?ps"
  have "snd ?rs = s\<lparr>trace := trace s @ wire_requests w (trace s) proxy ''wiki.putPage'' ?ps\<rparr>
      \<and> (fst ?rs = fst (except_Fault (?c, s)) \<or> fst ?rs = Inr PNone \<and> (\<exists>v. ?c = Inr v))"
    using Some
    by (cases ?c) (simp_all add: put_page_def remote_call_eq except_Fault_def Let_def split: error.splits)
  with Some show ?thesis unfolding one_proxy_call_def by blast
qed

lemma invoke_outcome: "one_proxy_call w s (invoke w op s)"
proof (cases op)
  case (Op_put_page pageid body summary minor)
  then show ?thesis by (simp add: put_page_outcome)
next
  case (Op_put_file namespace filename name overwrite)
  then show ?thesis by (simp add: put_file_def one_proxy_call_def)
next
  case (Op_list_files namespace)
  then show ?thesis by (simp add: list_files_def one_proxy_call_def)
qed (simp_all add: rpc_version_supported_def page_def page_versions_def page_info_def page_html_def
       all_pages_def backlinks_def links_def recent_changes_def acl_check_def guarded_call_outcome)

lemma outcome_frame:
  "one_proxy_call w s (r, s') \<Longrightarrow> stdout s' = stdout s \<and> parser s' = parser s \<and> self s' = self s"
  by (auto simp: one_proxy_call_def)

lemma invoke_self: "self (snd (invoke w op s)) = self s"
  using invoke_outcome [of w s op] by (auto simp: one_proxy_call_def)

lemma invoke_all_self: "self (invoke_all w ops s) = self s"
  by (induction ops arbitrary: s) (simp_all add: invoke_self)

lemma except_Fault_Inr: "except_Fault rs = (Inr v, s') \<Longrightarrow> rs = (Inr v, s')"
  by (cases rs) (auto simp: except_Fault_def split: sum.splits error.splits)

lemma xmlrpc_init_success:
  "xmlrpc_init w s = (Inr proxy, s') \<Longrightarrow>
     s' = s\<lparr>trace := trace s @ [UrlOpen (self_url (self s) @ ''/lib/exe/xmlrpc.php?'')],
             Transport_user_agent := self_user_agent (self s),
             SafeTransport_user_agent := self_user_agent (self s)\<rparr>"
  by (auto simp: xmlrpc_init_def Let_def split: url_reply.splits option.splits)

lemma remote_call_success:
  assumes "remote_call w name params s = (Inr v, s')"
  shows "\<exists>proxy. self_xmlrpc (self s) = Some proxy \<and> call_result w (trace s) proxy name params = Inr v
        \<and> s' = s\<lparr>trace := trace s @ wire_requests w (trace s) proxy name params\<rparr>"
proof (cases "self_xmlrpc (self s)")
  case None
  with assms show ?thesis by (simp add: remote_call_def)
next
  case (Some proxy)
  with remote_call_eq [OF Some, of w name params] assms show ?thesis by simp
qed

text \<open>The state a successful construction ends in.\<close>

lemma init_success:
  assumes "DokuWikiClient_init w url user passwd s = (Inr u, s')"
  shows "\<exists>proxy v.
           s' = s\<lparr>self := \<lparr>self_url = url, self_user = user, self_passwd = passwd,
                          self_user_agent = ''DokuWikiXMLRPC '' @ version @ ''by (www.chimeric.de)'',
                          self_xmlrpc = Some proxy, self_dokuwiki_version = Some v\<rparr>,
                   Transport_user_agent := ''DokuWikiXMLRPC '' @ version @ ''by (www.chimeric.de)'',
                   SafeTransport_user_agent := ''DokuWikiXMLRPC '' @ version @ ''by (www.chimeric.de)'',
                   trace := trace s @ [UrlOpen (url @ ''/lib/exe/xmlrpc.php?''),
                                       UrlOpen (url @ ''/lib/exe/xmlrpc.php?'')]
                              @ wire_requests w (trace s @ [UrlOpen (url @ ''/lib/exe/xmlrpc.php?''),
                                                             UrlOpen (url @ ''/lib/exe/xmlrpc.php?'')])
                                  proxy ''dokuwiki.getVersion'' []\<rparr>"
proof -
  define s1 where
    "s1 = s\<lparr>self := \<lparr>self_url = url, self_user = user, self_passwd = passwd,
                      self_user_agent = ''DokuWikiXMLRPC '' @ version @ ''by (www.chimeric.de)'',
                      self_xmlrpc = None, self_dokuwiki_version = None\<rparr>\<rparr>"
  from assms obtain dropped s2 where first: "xmlrpc_init w s1 = (Inr dropped, s2)"
    unfolding DokuWikiClient_init_def Let_def s1_def [symmetric]
    by (auto split: prod.splits sum.splits)
  from assms first obtain proxy s3 where second: "xmlrpc_init w s2 = (Inr proxy, s3)"
    unfolding DokuWikiClient_init_def Let_def s1_def [symmetric]
    by (auto split: prod.splits sum.splits)
  define s3' where "s3' = s3\<lparr>self := (self s3)\<lparr>self_xmlrpc := Some proxy\<rparr>\<rparr>"
  from assms first second obtain v s4
    where handshake: "except_Fault (dokuwiki_version w s3') = (Inr v, s4)"
      and final: "s' = s4\<lparr>self := (self s4)\<lparr>self_dokuwiki_version := Some v\<rparr>\<rparr>"
    unfolding DokuWikiClient_init_def Let_def s1_def [symmetric] s3'_def
    by (auto split: prod.splits sum.splits)
  from handshake have "remote_call w ''dokuwiki.getVersion'' [] s3' = (Inr v, s4)"
    unfolding dokuwiki_version_def by (blast dest: except_Fault_Inr)
  from remote_call_success [OF this]
  have sent: "s4 = s3'\<lparr>trace := trace s3' @ wire_requests w (trace s3') proxy ''dokuwiki.getVersion'' []\<rparr>"
    by (auto simp: s3'_def)
  have "s' = s\<lparr>self := \<lparr>self_url = url, self_user = user, self_passwd = passwd,
                          self_user_agent = ''DokuWikiXMLRPC '' @ version @ ''by (www.chimeric.de)'',
                          self_xmlrpc = Some proxy, self_dokuwiki_version = Some v\<rparr>,
                   Transport_user_agent := ''DokuWikiXMLRPC '' @ version @ ''by (www.chimeric.de)'',
                   SafeTransport_user_agent := ''DokuWikiXMLRPC '' @ version @ ''by (www.chimeric.de)'',
                   trace := trace s @ [UrlOpen (url @ ''/lib/exe/xmlrpc.php?''),
                                       UrlOpen (url @ ''/lib/exe/xmlrpc.php?'')]
                              @ wire_requests w (trace s @ [UrlOpen (url @ ''/lib/exe/xmlrpc.php?''),
                                                             UrlOpen (url @ ''/lib/exe/xmlrpc.php?'')])
                                  proxy ''dokuwiki.getVersion'' []\<rparr>"
    unfolding final sent s3'_def xmlrpc_init_success [OF second] xmlrpc_init_success [OF first] s1_def
    by simp
  then show ?thesis by blast
qed

text \<open>The requests of a successful construction: the handshake, once or resent.\<close>

lemma handshake_requests:
  "wire_requests w tr proxy ''dokuwiki.getVersion'' [] = [Rpc proxy ''dokuwiki.getVersion'' []]
   \<or> wire_requests w tr proxy ''dokuwiki.getVersion'' []
       = [Rpc proxy ''dokuwiki.getVersion'' [], Rpc proxy ''dokuwiki.getVersion'' []]"
  by (simp add: wire_requests_def split: reply.splits)

lemma wire_requests_shape:
  "wire_requests w tr proxy name params = []
   \<or> wire_requests w tr proxy name params = [Rpc proxy name params]
   \<or> wire_requests w tr proxy name params = [Rpc proxy name params, Rpc proxy name params]"
  by (simp add: wire_requests_def split: option.splits reply.splits)

text \<open>The concrete wikis, evaluated.\<close>

lemma wiki_init:
  assumes "urlopen w = (\<lambda>tr u. UrlOk)"
    and "urlencode w = (\<lambda>kvs. concat (map (\<lambda>kv. fst kv @ ''='' @ snd kv @ ''&'') kvs))"
    and "ServerProxy w = Some"
    and "\<And>tr proxy. server w tr proxy ''dokuwiki.getVersion'' [] = Response (PStr ''Release 2008-05-05'')"
  shows "DokuWikiClient_init w ''http://wiki'' ''alice'' ''secret'' (demo_state args) =
     (Inr (),
      \<lparr>self = \<lparr>self_url = ''http://wiki'', self_user = ''alice'', self_passwd = ''secret'',
               self_user_agent = ''DokuWikiXMLRPC 0.1by (www.chimeric.de)'',
               self_xmlrpc = Some ''http://wiki/lib/exe/xmlrpc.php?u=alice&p=secret&'',
               self_dokuwiki_version = Some (PStr ''Release 2008-05-05'')\<rparr>,
       parser = demo_parser args,
       Transport_user_agent = ''DokuWikiXMLRPC 0.1by (www.chimeric.de)'',
       SafeTransport_user_agent = ''DokuWikiXMLRPC 0.1by (www.chimeric.de)'',
       trace = [UrlOpen ''http://wiki/lib/exe/xmlrpc.php?'', UrlOpen ''http://wiki/lib/exe/xmlrpc.php?'',
                Rpc ''http://wiki/lib/exe/xmlrpc.php?u=alice&p=secret&'' ''dokuwiki.getVersion'' []],
       stdout = [], stderr = []\<rparr>)"
  by (simp add: DokuWikiClient_init_def xmlrpc_init_def dokuwiki_version_def remote_call_def
      Transport_request_def except_Fault_def demo_state_def version_def Let_def assms)

lemma demo_init:
  "DokuWikiClient_init demo_world ''http://wiki'' ''alice'' ''secret'' (demo_state args) =
     (Inr (),
      \<lparr>self = \<lparr>self_url = ''http://wiki'', self_user = ''alice'', self_passwd = ''secret'',
               self_user_agent = ''DokuWikiXMLRPC 0.1by (www.chimeric.de)'',
               self_xmlrpc = Some ''http://wiki/lib/exe/xmlrpc.php?u=alice&p=secret&'',
               self_dokuwiki_version = Some (PStr ''Release 2008-05-05'')\<rparr>,
       parser = demo_parser args,
       Transport_user_agent = ''DokuWikiXMLRPC 0.1by (www.chimeric.de)'',
       SafeTransport_user_agent = ''DokuWikiXMLRPC 0.1by (www.chimeric.de)'',
       trace = [UrlOpen ''http://wiki/lib/exe/xmlrpc.php?'', UrlOpen ''http://wiki/lib/exe/xmlrpc.php?'',
                Rpc ''http://wiki/lib/exe/xmlrpc.php?u=alice&p=secret&'' ''dokuwiki.getVersion'' []],
       stdout = [], stderr = []\<rparr>)"
  by (rule wiki_init) (simp_all add: demo_world_def demo_server_def)

lemma dropping_init:
  "DokuWikiClient_init dropping_world ''http://wiki'' ''alice'' ''secret'' (demo_state args) =
     DokuWikiClient_init demo_world ''http://wiki'' ''alice'' ''secret'' (demo_state args)"
  unfolding demo_init
  by (rule wiki_init) (simp_all add: dropping_world_def dropping_server_def demo_world_def demo_server_def)

lemma other_init:
  "DokuWikiClient_init other_world ''http://wiki'' ''alice'' ''secret'' (demo_state args) =
     DokuWikiClient_init demo_world ''http://wiki'' ''alice'' ''secret'' (demo_state args)"
  unfolding demo_init
  by (rule wiki_init) (simp_all add: other_world_def other_server_def demo_world_def demo_server_def)

lemma demo_connected_eq:
  "demo_connected =
     \<lparr>self = \<lparr>self_url = ''http://wiki'', self_user = ''alice'', self_passwd = ''secret'',
              self_user_agent = ''DokuWikiXMLRPC 0.1by (www.chimeric.de)'',
              self_xmlrpc = Some ''http://wiki/lib/exe/xmlrpc.php?u=alice&p=secret&'',
              self_dokuwiki_version = Some (PStr ''Release 2008-05-05'')\<rparr>,
      parser = demo_parser [],
      Transport_user_agent = ''DokuWikiXMLRPC 0.1by (www.chimeric.de)'',
      SafeTransport_user_agent = ''DokuWikiXMLRPC 0.1by (www.chimeric.de)'',
      trace = [UrlOpen ''http://wiki/lib/exe/xmlrpc.php?'', UrlOpen ''http://wiki/lib/exe/xmlrpc.php?'',
               Rpc ''http://wiki/lib/exe/xmlrpc.php?u=alice&p=secret&'' ''dokuwiki.getVersion'' []],
      stdout = [], stderr = []\<rparr>"
  by (simp add: demo_connected_def demo_init)

text \<open>What the requests of one call tell about its result.\<close>

lemma single_request_sent:
  assumes "wire_requests w tr proxy' name' params' = [Rpc proxy name params]"
  shows "proxy' = proxy \<and> name' = name \<and> params' = params
       \<and> (\<forall>e. server w tr proxy name params \<noteq> Dropped e)
       \<and> call_result w tr proxy name params = final_reply w tr proxy name params"
  using assms
  by (auto simp: wire_requests_def call_result_def final_reply_def split: option.splits reply.splits)








lemma invoke_is_call:
  "(\<exists>name params. invoke w op s = except_Fault (remote_call w name params s))
   \<or> (\<exists>pageid body summary minor. op = Op_put_page pageid body summary minor)
   \<or> invoke w op s = (Inr PNone, s)"
proof (cases op)
  case (Op_page pageid revision)
  then show ?thesis by (cases "truthy revision") (auto simp: page_def)
next
  case (Op_page_info pageid revision)
  then show ?thesis by (cases "truthy revision") (auto simp: page_info_def)
next
  case (Op_page_html pageid revision)
  then show ?thesis by (cases "truthy revision") (auto simp: page_html_def)
qed (auto simp: rpc_version_supported_def page_versions_def all_pages_def backlinks_def links_def
      recent_changes_def acl_check_def put_file_def list_files_def)

lemma put_page_trace:
  "self_xmlrpc (self s) = Some proxy \<Longrightarrow>
     snd (put_page w pageid body summary minor s) =
       s\<lparr>trace := trace s @ wire_requests w (trace s) proxy ''wiki.putPage''
                                [pageid, body, PDict [(''sum'', summary), (''minor'', minor)]]\<rparr>"
  by (cases "call_result w (trace s) proxy ''wiki.putPage''
               [pageid, body, PDict [(''sum'', summary), (''minor'', minor)]]")
    (simp_all add: put_page_def remote_call_eq except_Fault_def Let_def split: error.splits)

text \<open>Every remote procedure but \<^verbatim>\<open>wiki.putPage\<close> has its response returned as it came.\<close>

lemma response_returned_unmodified:
  assumes "invoke w op s = (r, s')"
    and "trace s' = trace s @ [Rpc proxy name params]"
    and "server w (trace s) proxy name params = Response v"
    and "name \<noteq> ''wiki.putPage''"
  shows "r = Inr v"
proof (cases "self_xmlrpc (self s)")
  case None
  have "one_proxy_call w s (r, s')"
    using invoke_outcome [of w s op] assms(1) by simp
  with None assms(2) show ?thesis
    by (auto simp: one_proxy_call_def)
next
  case (Some p)
  from invoke_is_call [of w op s] show ?thesis
  proof (elim disjE exE)
    fix name' params'
    assume "invoke w op s = except_Fault (remote_call w name' params' s)"
    with assms(1) Some
    have r: "r = fst (except_Fault (call_result w (trace s) p name' params', s))"
      and s': "s' = s\<lparr>trace := trace s @ wire_requests w (trace s) p name' params'\<rparr>"
      by (simp_all add: guarded_call)
    from s' assms(2) have "wire_requests w (trace s) p name' params' = [Rpc proxy name params]"
      by simp
    from single_request_sent [OF this] r assms(3) show ?thesis
      by (simp add: final_reply_def except_Fault_def)
  next
    fix pageid body summary minor
    assume "op = Op_put_page pageid body summary minor"
    with assms(1) put_page_trace [OF Some, of w pageid body summary minor]
    have "s' = s\<lparr>trace := trace s @ wire_requests w (trace s) p ''wiki.putPage''
                                [pageid, body, PDict [(''sum'', summary), (''minor'', minor)]]\<rparr>"
      by simp
    with assms(2) have "wire_requests w (trace s) p ''wiki.putPage''
                          [pageid, body, PDict [(''sum'', summary), (''minor'', minor)]]
                        = [Rpc proxy name params]"
      by simp
    from single_request_sent [OF this] assms(4) show ?thesis by simp
  next
    assume "invoke w op s = (Inr PNone, s)"
    with assms(1,2) show ?thesis by simp
  qed
qed

section \<open>The error raised for XML-RPC faults\<close>

text \<open>
  C10. For every object that is not an \<^verbatim>\<open>xmlrpclib.Fault\<close>, the \<^verbatim>\<open>DokuWikiXMLRPCError\<close>
  constructed from it has the code \<^verbatim>\<open>page_id\<close> 0 and the object itself as its message.
  The error holds nothing but the code and the message, so that only the code tells it
  from the error of a remote fault: a fault with the code 0 and the message \<open>m\<close> gives
  the very error that the string \<open>m\<close> gives.
\<close>

theorem error_from_other_object:
  "\<not> isinstance_Fault obj \<Longrightarrow>
     page_id (DokuWikiXMLRPCError_init obj) = 0 \<and> message (DokuWikiXMLRPCError_init obj) = obj
     \<and> DokuWikiXMLRPCError_init obj = \<lparr>page_id = 0, message = obj\<rparr>
     \<and> DokuWikiXMLRPCError_init (Fault 0 m) = DokuWikiXMLRPCError_init (Obj (PStr m))"
  by (simp add: DokuWikiXMLRPCError_init_def)

theorem error_from_other_object_witness:
  "\<not> isinstance_Fault (Obj (PStr ''timeout''))
   \<and> page_id (DokuWikiXMLRPCError_init (Obj (PStr ''timeout''))) = 0
   \<and> message (DokuWikiXMLRPCError_init (Obj (PStr ''timeout''))) = Obj (PStr ''timeout'')"
  using error_from_other_object [of "Obj (PStr ''timeout'')"] by simp



section \<open>The attempts of one call\<close>




section \<open>The connection parameters\<close>

text \<open>
  C7. After a successful construction with \<open>url\<close>, \<open>user\<close> and \<open>passwd\<close>, and after any
  number of operations on the client, the attributes \<^verbatim>\<open>_url\<close>, \<^verbatim>\<open>_user\<close> and \<^verbatim>\<open>_passwd\<close>
  hold the constructor's arguments, before a further operation and after it, whether that
  operation returns or raises.
\<close>

theorem connection_parameters_fixed:
  assumes "DokuWikiClient_init w url user passwd s0 = (Inr u, s)"
    and "invoke w op (invoke_all w ops s) = (r, s')"
  shows "self_url (self (invoke_all w ops s)) = url
       \<and> self_user (self (invoke_all w ops s)) = user
       \<and> self_passwd (self (invoke_all w ops s)) = passwd
       \<and> self_url (self s') = url \<and> self_user (self s') = user \<and> self_passwd (self s') = passwd"
proof -
  from init_success [OF assms(1)]
  have constructed: "self_url (self s) = url \<and> self_user (self s) = user \<and> self_passwd (self s) = passwd"
    by auto
  have "self s' = self (invoke_all w ops s)"
    using invoke_self [of w op "invoke_all w ops s"] assms(2) by simp
  with constructed show ?thesis by (simp add: invoke_all_self)
qed

theorem connection_parameters_fixed_witness:
  "DokuWikiClient_init demo_world ''http://wiki'' ''alice'' ''secret'' (demo_state []) = (Inr (), demo_connected)
   \<and> fst (invoke demo_world (Op_acl_check (PStr ''start''))
            (invoke_all demo_world [Op_put_page (PStr ''start'') (PStr ''Hello'') (PStr []) PNone] demo_connected))
       = Inl (DokuWikiXMLRPCError \<lparr>page_id = 1, message = Obj (PStr ''No such page'')\<rparr>)
   \<and> self_url (self (snd (invoke demo_world (Op_acl_check (PStr ''start''))
            (invoke_all demo_world [Op_put_page (PStr ''start'') (PStr ''Hello'') (PStr []) PNone] demo_connected))))
       = ''http://wiki''
   \<and> self_user (self (snd (invoke demo_world (Op_acl_check (PStr ''start''))
            (invoke_all demo_world [Op_put_page (PStr ''start'') (PStr ''Hello'') (PStr []) PNone] demo_connected))))
       = ''alice''
   \<and> self_passwd (self (snd (invoke demo_world (Op_acl_check (PStr ''start''))
            (invoke_all demo_world [Op_put_page (PStr ''start'') (PStr ''Hello'') (PStr []) PNone] demo_connected))))
       = ''secret''"
proof -
  let ?mid = "invoke_all demo_world [Op_put_page (PStr ''start'') (PStr ''Hello'') (PStr []) PNone] demo_connected"
  let ?rs = "invoke demo_world (Op_acl_check (PStr ''start'')) ?mid"
  have constructed:
    "DokuWikiClient_init demo_world ''http://wiki'' ''alice'' ''secret'' (demo_state []) = (Inr (), demo_connected)"
    by (simp add: demo_connected_eq demo_init)
  have run: "?rs = (fst ?rs, snd ?rs)" by simp
  have raised: "fst ?rs = Inl (DokuWikiXMLRPCError \<lparr>page_id = 1, message = Obj (PStr ''No such page'')\<rparr>)"
    by (simp add: demo_connected_eq acl_check_def put_page_def remote_call_def Transport_request_def
        except_Fault_def demo_world_def demo_server_def DokuWikiXMLRPCError_init_def)
  from connection_parameters_fixed [OF constructed run] constructed raised show ?thesis by simp
qed

section \<open>What the methods return and what construction sends\<close>

text \<open>
  C1. Each method bound to a remote operation is to return the response of its remote
  procedure unmodified. \<^verbatim>\<open>put_page\<close> does not: against a wiki that answers
  \<^verbatim>\<open>wiki.putPage\<close> with True, \<^verbatim>\<open>put_page('start', 'Hello', 'greeting', False)\<close> sends the
  request and returns None.
\<close>

theorem put_page_drops_response:
  "server demo_world (trace demo_connected) ''http://wiki/lib/exe/xmlrpc.php?u=alice&p=secret&'' ''wiki.putPage''
       [PStr ''start'', PStr ''Hello'', PDict [(''sum'', PStr ''greeting''), (''minor'', PBool False)]]
     = Response (PBool True)
   \<and> put_page demo_world (PStr ''start'') (PStr ''Hello'') (PStr ''greeting'') (PBool False) demo_connected
     = (Inr PNone,
        demo_connected\<lparr>trace := trace demo_connected @
          [Rpc ''http://wiki/lib/exe/xmlrpc.php?u=alice&p=secret&'' ''wiki.putPage''
             [PStr ''start'', PStr ''Hello'', PDict [(''sum'', PStr ''greeting''), (''minor'', PBool False)]]]\<rparr>)"
  by (simp add: demo_connected_eq put_page_def remote_call_def Transport_request_def except_Fault_def demo_world_def
      demo_server_def)

text \<open>
  C3. A successful construction is to check the reachability of the URL once and to
  call \<^verbatim>\<open>dokuwiki.getVersion\<close> once. \<^verbatim>\<open>DokuWikiClient('http://wiki', 'alice', 'secret')\<close>
  succeeds and opens the URL twice before the one call of \<^verbatim>\<open>dokuwiki.getVersion\<close>.
\<close>

theorem construction_opens_url_twice:
  "DokuWikiClient_init demo_world ''http://wiki'' ''alice'' ''secret'' (demo_state [])
     = (Inr (), demo_connected)
   \<and> trace demo_connected =
       [UrlOpen ''http://wiki/lib/exe/xmlrpc.php?'',
        UrlOpen ''http://wiki/lib/exe/xmlrpc.php?'',
        Rpc ''http://wiki/lib/exe/xmlrpc.php?u=alice&p=secret&'' ''dokuwiki.getVersion'' []]"
  by (simp add: demo_connected_eq demo_init)

section \<open>The methods left unimplemented\<close>

text \<open>
  C5. \<^verbatim>\<open>put_file\<close> and \<^verbatim>\<open>list_files\<close> are stubs: whatever their arguments, they return
  None without raising, and leave the state as it was, so that no request is sent.
\<close>

theorem file_stubs:
  "put_file w namespace filename name overwrite s = (Inr PNone, s)
   \<and> list_files w namespace s = (Inr PNone, s)"
  by (simp add: put_file_def list_files_def)

section \<open>Facts about the front end\<close>

lemma construct_success:
  "construct w s = (Inr u, s1) \<Longrightarrow>
     DokuWikiClient_init w (opt_value (values_wiki (parser s))) (opt_value (values_user (parser s)))
       (opt_value (values_passwd (parser s))) s = (Inr u, s1)"
  by (auto simp: construct_def parser_error_def split: prod.splits sum.splits error.splits)

lemma getattribute_outcome:
  "getattribute option w args s = (Inl TypeError, s) \<or> one_proxy_call w s (getattribute option w args s)"
proof -
  have none: "one_proxy_call w s (Inl AttributeError, s)"
    by (simp add: one_proxy_call_def)
  show ?thesis
    unfolding getattribute_def
    by (simp add: none page_def page_html_def page_info_def page_versions_def backlinks_def links_def
        all_pages_def recent_changes_def guarded_call_outcome split: list.splits)
qed

lemma getattribute_stdout: "stdout (snd (getattribute option w args s)) = stdout s"
  using getattribute_outcome [of option w args s]
    outcome_frame [of w s "fst (getattribute option w args s)" "snd (getattribute option w args s)"]
  by (cases "getattribute option w args s") auto

lemma get_page_id_frame:
  "get_page_id w s = (r, s') \<Longrightarrow> stdout s' = stdout s \<and> self s' = self s \<and> trace s' = trace s"
  by (auto simp: get_page_id_def parser_error_def split: if_splits)

lemma tagged_snd:
  "snd (case rs of (Inl e, s1) \<Rightarrow> (Inl e, s1) | (Inr x, s1) \<Rightarrow> (Inr (h x), s1)) = snd rs"
  by (cases rs) (simp split: sum.splits)

lemma dispatch_stdout:
  assumes "dispatch w dest s = (r, s')"
  shows "stdout s' = stdout s"
proof -
  obtain a s1 where page: "get_page_id w s = (a, s1)" by force
  from get_page_id_frame [OF page] have "stdout s1 = stdout s" by simp
  then have "stdout (snd (dispatch w dest s)) = stdout s"
    unfolding dispatch_def Let_def
    by (simp add: page tagged_snd getattribute_stdout split: sum.splits)
  with assms show ?thesis by simp
qed

lemma dispatch_format:
  assumes "dispatch w dest s = (Inr (data, format), s')"
  shows "(dest = ''page'' \<or> dest = ''page_html'') \<and> format = ''plain''
       \<or> (dest = ''backlinks'' \<or> dest = ''all_pages'') \<and> format = ''list''
       \<or> (dest = ''page_info'' \<or> dest = ''page_versions'' \<or> dest = ''links'' \<or> dest = ''recent_changes'')
            \<and> format = ''dict''"
  using assms unfolding dispatch_def Let_def
  by (auto split: if_splits prod.splits sum.splits)

lemma print_dicts_eq:
  "print_dicts w items s =
     (if list_all is_mapping items then Inr () else Inl AttributeError,
      s\<lparr>stdout := stdout s
           @ concat (map (\<lambda>item. case item of
                                     PDict kvs \<Rightarrow> map (\<lambda>(key, v). key @ '': '' @ str w (Obj v)) kvs @ [[CHR 10]]
                                   | _ \<Rightarrow> [])
                       (takeWhile is_mapping items))\<rparr>)"
  by (induction w items s rule: print_dicts.induct)
    (simp_all add: key_value_line_def case_prod_beta)

lemma print_dicts_trace: "trace (snd (print_dicts w items s)) = trace s"
  by (induction w items s rule: print_dicts.induct) simp_all

lemma print_result_trace: "trace (snd (print_result w data format s)) = trace s"
  by (simp add: print_result_def print_dicts_trace split: option.splits pyval.splits)

lemma run_eq:
  assumes "opt_value (values_user (parser s)) \<noteq> []" "opt_value (values_wiki (parser s)) \<noteq> []"
     "opt_value (values_passwd (parser s)) \<noteq> []"
    and "construct w s = (Inr u, s1)"
    and "dispatch w dest s1 = (Inr (data, format), s2)"
  shows "Callback_init w dest s = print_result w data format s2"
  using assms by (simp add: Callback_init_def)

lemma construct_stdout:
  assumes "construct w s = (Inr u, s1)"
  shows "stdout s1 = stdout s"
  using init_success [OF construct_success [OF assms]] by auto

lemma run_trace:
  assumes "opt_value (values_user (parser s)) \<noteq> []" "opt_value (values_wiki (parser s)) \<noteq> []"
    "opt_value (values_passwd (parser s)) \<noteq> []"
    and "construct w s = (Inr u, s1)"
  shows "trace (snd (Callback_init w dest s)) = trace (snd (dispatch w dest s1))"
  using assms
  by (cases "dispatch w dest s1")
    (auto simp: Callback_init_def print_result_trace split: sum.splits)

lemma three_formats:
  assumes "A \<and> a \<or> B \<and> b \<or> C \<and> c"
    and "A \<Longrightarrow> a \<Longrightarrow> P" and "B \<Longrightarrow> b \<Longrightarrow> P" and "C \<Longrightarrow> c \<Longrightarrow> P"
  shows P
  using assms by blast

lemma dispatch_one_call:
  assumes proxy: "self_xmlrpc (self s) = Some proxy"
    and dest: "(opt, dest) \<in> set callback_options"
    and page: "dest = ''all_pages'' \<or> dest = ''recent_changes'' \<or> rargs (parser s) \<noteq> []"
  shows "trace (snd (dispatch w dest s)) =
           trace s @ wire_requests w (trace s) proxy (fst (dispatched_call w dest s))
                       (snd (dispatched_call w dest s))"
proof -
  from dest have "dest = ''page'' \<or> dest = ''page_html'' \<or> dest = ''page_info'' \<or> dest = ''recent_changes''
      \<or> dest = ''page_versions'' \<or> dest = ''backlinks'' \<or> dest = ''all_pages'' \<or> dest = ''links''"
    by (auto simp: callback_options_def)
  then show ?thesis
  proof (elim disjE)
    assume "dest = ''page''"
    with page proxy show ?thesis
      by (cases "values_timestamp (parser s)")
        (simp_all add: dispatch_def get_page_id_def getattribute_def page_def guarded_call
          dispatched_call_def tagged_snd split: sum.splits)
  next
    assume "dest = ''page_html''"
    with page proxy show ?thesis
      by (cases "values_timestamp (parser s)")
        (simp_all add: dispatch_def get_page_id_def getattribute_def page_html_def guarded_call
          dispatched_call_def tagged_snd split: sum.splits)
  next
    assume "dest = ''page_info''"
    with page proxy show ?thesis
      by (simp add: dispatch_def get_page_id_def getattribute_def page_info_def guarded_call
          dispatched_call_def tagged_snd split: sum.splits)
  next
    assume "dest = ''recent_changes''"
    with page proxy show ?thesis
      by (cases "values_timestamp (parser s)")
        (simp_all add: dispatch_def getattribute_def recent_changes_def guarded_call Let_def
          dispatched_call_def tagged_snd split: sum.splits)
  next
    assume "dest = ''page_versions''"
    with page proxy show ?thesis
      by (simp add: dispatch_def get_page_id_def getattribute_def page_versions_def guarded_call
          dispatched_call_def tagged_snd split: sum.splits)
  next
    assume "dest = ''backlinks''"
    with page proxy show ?thesis
      by (simp add: dispatch_def get_page_id_def getattribute_def backlinks_def guarded_call
          dispatched_call_def tagged_snd split: sum.splits)
  next
    assume "dest = ''all_pages''"
    with page proxy show ?thesis
      by (simp add: dispatch_def getattribute_def all_pages_def guarded_call
          dispatched_call_def tagged_snd split: sum.splits)
  next
    assume "dest = ''links''"
    with page proxy show ?thesis
      by (simp add: dispatch_def get_page_id_def getattribute_def links_def guarded_call
          dispatched_call_def tagged_snd split: sum.splits)
  qed
qed

lemma demo_construct:
  "construct demo_world (demo_state args) =
     (Inr (),
      \<lparr>self = \<lparr>self_url = ''http://wiki'', self_user = ''alice'', self_passwd = ''secret'',
               self_user_agent = ''DokuWikiXMLRPC 0.1by (www.chimeric.de)'',
               self_xmlrpc = Some ''http://wiki/lib/exe/xmlrpc.php?u=alice&p=secret&'',
               self_dokuwiki_version = Some (PStr ''Release 2008-05-05'')\<rparr>,
       parser = demo_parser args,
       Transport_user_agent = ''DokuWikiXMLRPC 0.1by (www.chimeric.de)'',
       SafeTransport_user_agent = ''DokuWikiXMLRPC 0.1by (www.chimeric.de)'',
       trace = [UrlOpen ''http://wiki/lib/exe/xmlrpc.php?'', UrlOpen ''http://wiki/lib/exe/xmlrpc.php?'',
                Rpc ''http://wiki/lib/exe/xmlrpc.php?u=alice&p=secret&'' ''dokuwiki.getVersion'' []],
       stdout = [], stderr = []\<rparr>)"
proof -
  have "parser (demo_state args) = demo_parser args" by (simp add: demo_state_def)
  then show ?thesis
    by (simp add: construct_def demo_parser_def demo_init)
qed

lemma other_construct:
  "construct other_world (demo_state args) = construct demo_world (demo_state args)"
proof -
  have "parser (demo_state args) = demo_parser args" by (simp add: demo_state_def)
  then show ?thesis
    unfolding demo_construct
    by (simp add: construct_def demo_parser_def other_init demo_init)
qed

lemma late_construct:
  "construct demo_world late_state =
     (Inr (),
      \<lparr>self = \<lparr>self_url = ''http://wiki'', self_user = ''alice'', self_passwd = ''secret'',
               self_user_agent = ''DokuWikiXMLRPC 0.1by (www.chimeric.de)'',
               self_xmlrpc = Some ''http://wiki/lib/exe/xmlrpc.php?u=alice&p=secret&'',
               self_dokuwiki_version = Some (PStr ''Release 2008-05-05'')\<rparr>,
       parser = (demo_parser [])\<lparr>values_timestamp := Some 2147483648\<rparr>,
       Transport_user_agent = ''DokuWikiXMLRPC 0.1by (www.chimeric.de)'',
       SafeTransport_user_agent = ''DokuWikiXMLRPC 0.1by (www.chimeric.de)'',
       trace = [UrlOpen ''http://wiki/lib/exe/xmlrpc.php?'', UrlOpen ''http://wiki/lib/exe/xmlrpc.php?'',
                Rpc ''http://wiki/lib/exe/xmlrpc.php?u=alice&p=secret&'' ''dokuwiki.getVersion'' []],
       stdout = [], stderr = []\<rparr>)"
  by (simp add: construct_def late_state_def demo_state_def demo_parser_def DokuWikiClient_init_def
      xmlrpc_init_def dokuwiki_version_def remote_call_def Transport_request_def except_Fault_def
      version_def Let_def demo_world_def demo_server_def)

lemma demo_credentials:
  "opt_value (values_user (parser (demo_state args))) \<noteq> []"
  "opt_value (values_wiki (parser (demo_state args))) \<noteq> []"
  "opt_value (values_passwd (parser (demo_state args))) \<noteq> []"
  by (simp_all add: demo_state_def demo_parser_def)

lemma late_credentials:
  "opt_value (values_user (parser late_state)) \<noteq> []"
  "opt_value (values_wiki (parser late_state)) \<noteq> []"
  "opt_value (values_passwd (parser late_state)) \<noteq> []"
  by (simp_all add: late_state_def demo_parser_def)

lemmas evaluate_call =
  dispatch_def get_page_id_def getattribute_def demo_parser_def page_def backlinks_def all_pages_def
  page_info_def links_def recent_changes_def remote_call_def Transport_request_def except_Fault_def

lemma demo_dispatch:
  "fst (dispatch demo_world ''backlinks'' (snd (construct demo_world (demo_state [''start''])))) = Inr (PList [], ''list'')"
  "fst (dispatch demo_world ''page'' (snd (construct demo_world (demo_state [''start''])))) = Inr (PStr ''Hello'', ''plain'')"
  "fst (dispatch demo_world ''all_pages'' (snd (construct demo_world (demo_state [])))) = Inr (PList [PStr ''start'', PStr ''wiki:syntax''], ''list'')"
  "fst (dispatch demo_world ''page_info'' (snd (construct demo_world (demo_state [''start''])))) = Inr (PDict [(''name'', PStr ''start''), (''author'', PStr ''alice'')], ''dict'')"
  "fst (dispatch demo_world ''links'' (snd (construct demo_world (demo_state [''start''])))) =
     Inr (PList [PDict [(''type'', PStr ''local''), (''page'', PStr ''wiki:syntax'')], PDict [(''type'', PStr ''extern'')]], ''dict'')"
  unfolding demo_construct snd_conv
  by (simp_all add: evaluate_call demo_world_def demo_server_def)

lemma other_dispatch:
  "fst (dispatch other_world ''all_pages'' (snd (construct other_world (demo_state []))))
     = Inr (PList [PDict [(''id'', PStr ''start'')]], ''list'')"
  "fst (dispatch other_world ''page_info'' (snd (construct other_world (demo_state [''start'']))))
     = Inr (PStr ''start'', ''dict'')"
  "fst (dispatch other_world ''page'' (snd (construct other_world (demo_state [''start'']))))
     = Inr (PList [PStr ''a'', PStr ''b''], ''plain'')"
  unfolding other_construct demo_construct snd_conv
  by (simp_all add: evaluate_call other_world_def other_server_def demo_world_def demo_server_def)

section \<open>What a run of the front end sends and prints\<close>

text \<open>
  C4, as the claim states it: a run that selects one operation flag performs exactly one
  remote operation in total. The run \<^verbatim>\<open>-u alice -w http://wiki -p secret --allpages\<close>
  performs two: the \<^verbatim>\<open>dokuwiki.getVersion\<close> of the construction, then
  \<^verbatim>\<open>wiki.getAllPages\<close>.
\<close>

theorem run_sends_two_remote_calls:
  "filter is_Rpc (trace (snd (Callback_init demo_world ''all_pages'' (demo_state []))))
     = [Rpc ''http://wiki/lib/exe/xmlrpc.php?u=alice&p=secret&'' ''dokuwiki.getVersion'' [],
        Rpc ''http://wiki/lib/exe/xmlrpc.php?u=alice&p=secret&'' ''wiki.getAllPages'' []]
   \<and> length (filter is_Rpc (trace (snd (Callback_init demo_world ''all_pages'' (demo_state []))))) \<noteq> 1"
proof -
  have "trace (snd (Callback_init demo_world ''all_pages'' (demo_state [])))
          = trace (snd (dispatch demo_world ''all_pages'' (snd (construct demo_world (demo_state [])))))"
    by (rule run_trace [OF demo_credentials]) (simp add: demo_construct)
  also have "\<dots> = [UrlOpen ''http://wiki/lib/exe/xmlrpc.php?'', UrlOpen ''http://wiki/lib/exe/xmlrpc.php?'',
        Rpc ''http://wiki/lib/exe/xmlrpc.php?u=alice&p=secret&'' ''dokuwiki.getVersion'' [],
        Rpc ''http://wiki/lib/exe/xmlrpc.php?u=alice&p=secret&'' ''wiki.getAllPages'' []]"
    unfolding demo_construct snd_conv
    by (simp add: evaluate_call demo_world_def demo_server_def)
  finally show ?thesis by simp
qed

text \<open>
  C4, amended. For a run of a registered operation flag with user, wiki and password
  given before it, in which the construction of the client succeeds and a page argument
  is there when the flag needs one, the run makes two calls of the proxy: the handshake
  \<^verbatim>\<open>dokuwiki.getVersion\<close> of the construction, then the one procedure of the flag
  (\<open>dispatched_call\<close>). The requests sent are those of the handshake, one or, after a
  dropped connection, two, followed by those of the one dispatched call: none when its
  parameter cannot be marshalled (a timestamp outside 32 bits), one, or two after a
  dropped connection. Construction and dispatch print nothing, formatting and output
  send nothing. The run takes nothing from a client left by an earlier invocation: with
  any other client object in the state it starts from, its result and final state are
  the same.
\<close>

theorem run_makes_handshake_and_one_call:
  assumes "(opt, dest) \<in> set callback_options"
    and "opt_value (values_user (parser s)) \<noteq> []"
    and "opt_value (values_wiki (parser s)) \<noteq> []"
    and "opt_value (values_passwd (parser s)) \<noteq> []"
    and "construct w s = (Inr u, s1)"
    and "dest = ''all_pages'' \<or> dest = ''recent_changes'' \<or> rargs (parser s) \<noteq> []"
    and "Callback_init w dest s = (r, s')"
  shows "\<exists>proxy hs cs.
           filter is_Rpc (trace s1) = filter is_Rpc (trace s) @ hs
         \<and> (hs = [Rpc proxy ''dokuwiki.getVersion'' []]
              \<or> hs = [Rpc proxy ''dokuwiki.getVersion'' [], Rpc proxy ''dokuwiki.getVersion'' []])
         \<and> stdout s1 = stdout s
         \<and> cs = wire_requests w (trace s1) proxy (fst (dispatched_call w dest s1))
                  (snd (dispatched_call w dest s1))
         \<and> (cs = []
              \<or> cs = [Rpc proxy (fst (dispatched_call w dest s1)) (snd (dispatched_call w dest s1))]
              \<or> cs = [Rpc proxy (fst (dispatched_call w dest s1)) (snd (dispatched_call w dest s1)),
                       Rpc proxy (fst (dispatched_call w dest s1)) (snd (dispatched_call w dest s1))])
         \<and> trace (snd (dispatch w dest s1)) = trace s1 @ cs
         \<and> stdout (snd (dispatch w dest s1)) = stdout s
         \<and> trace s' = trace s1 @ cs
         \<and> filter is_Rpc (trace s') = filter is_Rpc (trace s) @ hs @ cs
         \<and> Callback_init w dest (s\<lparr>self := earlier\<rparr>) = (r, s')"
proof -
  let ?u = "UrlOpen (opt_value (values_wiki (parser s)) @ ''/lib/exe/xmlrpc.php?'')"
  from init_success [OF construct_success [OF assms(5)]]
  obtain proxy where proxy: "self_xmlrpc (self s1) = Some proxy"
    and built: "trace s1 = trace s @ [?u, ?u] @ wire_requests w (trace s @ [?u, ?u]) proxy ''dokuwiki.getVersion'' []"
    and quiet: "stdout s1 = stdout s"
    and same: "parser s1 = parser s"
    by auto
  define hs where "hs = wire_requests w (trace s @ [?u, ?u]) proxy ''dokuwiki.getVersion'' []"
  define cs where "cs = wire_requests w (trace s1) proxy (fst (dispatched_call w dest s1))
                          (snd (dispatched_call w dest s1))"
  have hs: "hs = [Rpc proxy ''dokuwiki.getVersion'' []]
              \<or> hs = [Rpc proxy ''dokuwiki.getVersion'' [], Rpc proxy ''dokuwiki.getVersion'' []]"
    unfolding hs_def by (rule handshake_requests)
  then have only: "filter is_Rpc hs = hs" by auto
  from built have handshake: "filter is_Rpc (trace s1) = filter is_Rpc (trace s) @ hs"
    by (simp add: hs_def only [unfolded hs_def])
  have cs: "cs = []
              \<or> cs = [Rpc proxy (fst (dispatched_call w dest s1)) (snd (dispatched_call w dest s1))]
              \<or> cs = [Rpc proxy (fst (dispatched_call w dest s1)) (snd (dispatched_call w dest s1)),
                       Rpc proxy (fst (dispatched_call w dest s1)) (snd (dispatched_call w dest s1))]"
    unfolding cs_def by (rule wire_requests_shape)
  then have calls: "filter is_Rpc cs = cs" by auto
  from assms(6) same have "dest = ''all_pages'' \<or> dest = ''recent_changes'' \<or> rargs (parser s1) \<noteq> []"
    by simp
  from dispatch_one_call [OF proxy assms(1) this]
  have call: "trace (snd (dispatch w dest s1)) = trace s1 @ cs"
    by (simp add: cs_def)
  have "stdout (snd (dispatch w dest s1)) = stdout s1"
    using dispatch_stdout [of w dest s1] by (cases "dispatch w dest s1") simp
  with quiet have silent: "stdout (snd (dispatch w dest s1)) = stdout s" by simp
  have final: "trace s' = trace s1 @ cs"
    using run_trace [OF assms(2-5), of dest] assms(7) call by simp
  then have total: "filter is_Rpc (trace s') = filter is_Rpc (trace s) @ hs @ cs"
    by (simp add: handshake calls)
  have "DokuWikiClient_init w url user passwd (s\<lparr>self := earlier\<rparr>) = DokuWikiClient_init w url user passwd s"
    for url user passwd
    by (simp add: DokuWikiClient_init_def)
  then have "construct w (s\<lparr>self := earlier\<rparr>) = construct w s"
    by (simp add: construct_def)
  with assms(2-5,7) have fresh: "Callback_init w dest (s\<lparr>self := earlier\<rparr>) = (r, s')"
    by (simp add: Callback_init_def)
  from handshake hs quiet cs call silent final total fresh show ?thesis
    unfolding cs_def by blast
qed

theorem run_makes_handshake_and_one_call_witness:
  "(''--raw'', ''page'') \<in> set callback_options
   \<and> construct demo_world (demo_state [''start'']) = (Inr (), snd (construct demo_world (demo_state [''start''])))
   \<and> rargs (parser (demo_state [''start''])) \<noteq> []
   \<and> filter is_Rpc (trace (snd (Callback_init demo_world ''page'' (demo_state [''start'']))))
       = [Rpc ''http://wiki/lib/exe/xmlrpc.php?u=alice&p=secret&'' ''dokuwiki.getVersion'' [],
          Rpc ''http://wiki/lib/exe/xmlrpc.php?u=alice&p=secret&'' ''wiki.getPage'' [PStr ''start'']]
   \<and> (''--changes'', ''recent_changes'') \<in> set callback_options
   \<and> construct demo_world late_state = (Inr (), snd (construct demo_world late_state))
   \<and> dispatched_call demo_world ''recent_changes'' (snd (construct demo_world late_state))
       = (''wiki.getRecentChanges'', [PInt 2147483648])
   \<and> filter is_Rpc (trace (snd (Callback_init demo_world ''recent_changes'' late_state)))
       = [Rpc ''http://wiki/lib/exe/xmlrpc.php?u=alice&p=secret&'' ''dokuwiki.getVersion'' []]"
proof -
  let ?p = "''http://wiki/lib/exe/xmlrpc.php?u=alice&p=secret&''"
  let ?H = "Rpc ?p ''dokuwiki.getVersion'' []"
  have run: "Callback_init w dest s = (fst (Callback_init w dest s), snd (Callback_init w dest s))"
    for w dest s
    by simp
  have first: "filter is_Rpc (trace (snd (Callback_init demo_world ''page'' (demo_state [''start'']))))
                 = [?H, Rpc ?p ''wiki.getPage'' [PStr ''start'']]"
    and flag: "(''--raw'', ''page'') \<in> set callback_options"
    and constructed: "construct demo_world (demo_state [''start''])
                        = (Inr (), snd (construct demo_world (demo_state [''start''])))"
    and args: "rargs (parser (demo_state [''start''])) \<noteq> []"
  proof -
    let ?s = "demo_state [''start'']"
    let ?s1 = "snd (construct demo_world ?s)"
    show flag: "(''--raw'', ''page'') \<in> set callback_options"
      by (simp add: callback_options_def)
    show constructed: "construct demo_world ?s = (Inr (), ?s1)"
      by (simp add: demo_construct)
    show args: "rargs (parser ?s) \<noteq> []"
      by (simp add: demo_state_def demo_parser_def)
    then have available: "''page'' = ''all_pages'' \<or> ''page'' = ''recent_changes'' \<or> rargs (parser ?s) \<noteq> []"
      by simp
    have before: "filter is_Rpc (trace ?s) = []"
      by (simp add: demo_state_def)
    have built: "filter is_Rpc (trace ?s1) = [?H]"
      by (simp add: demo_construct)
    have call: "wire_requests demo_world (trace ?s1) ?p (fst (dispatched_call demo_world ''page'' ?s1))
                  (snd (dispatched_call demo_world ''page'' ?s1))
                = [Rpc ?p ''wiki.getPage'' [PStr ''start'']]"
      unfolding demo_construct snd_conv
      by (simp add: dispatched_call_def wire_requests_def demo_parser_def demo_world_def demo_server_def)
    from run_makes_handshake_and_one_call [OF flag demo_credentials constructed available run]
    obtain proxy hs cs
      where hs: "filter is_Rpc (trace ?s1) = filter is_Rpc (trace ?s) @ hs"
        and shape: "hs = [Rpc proxy ''dokuwiki.getVersion'' []]
                     \<or> hs = [Rpc proxy ''dokuwiki.getVersion'' [], Rpc proxy ''dokuwiki.getVersion'' []]"
        and cs: "cs = wire_requests demo_world (trace ?s1) proxy (fst (dispatched_call demo_world ''page'' ?s1))
                        (snd (dispatched_call demo_world ''page'' ?s1))"
        and total: "filter is_Rpc (trace (snd (Callback_init demo_world ''page'' ?s)))
                      = filter is_Rpc (trace ?s) @ hs @ cs"
      by blast
    from hs before built have "hs = [?H]" by simp
    with shape have "proxy = ?p" by auto
    with cs call have "cs = [Rpc ?p ''wiki.getPage'' [PStr ''start'']]" by simp
    with total before \<open>hs = [?H]\<close>
    show "filter is_Rpc (trace (snd (Callback_init demo_world ''page'' ?s)))
            = [?H, Rpc ?p ''wiki.getPage'' [PStr ''start'']]"
      by simp
  qed
  have second: "filter is_Rpc (trace (snd (Callback_init demo_world ''recent_changes'' late_state))) = [?H]"
    and flag': "(''--changes'', ''recent_changes'') \<in> set callback_options"
    and constructed': "construct demo_world late_state = (Inr (), snd (construct demo_world late_state))"
    and call': "dispatched_call demo_world ''recent_changes'' (snd (construct demo_world late_state))
                  = (''wiki.getRecentChanges'', [PInt 2147483648])"
  proof -
    let ?s = "late_state"
    let ?s1 = "snd (construct demo_world ?s)"
    show flag: "(''--changes'', ''recent_changes'') \<in> set callback_options"
      by (simp add: callback_options_def)
    show constructed: "construct demo_world ?s = (Inr (), ?s1)"
      by (simp add: late_construct)
    have available: "''recent_changes'' = ''all_pages'' \<or> ''recent_changes'' = ''recent_changes''
                       \<or> rargs (parser ?s) \<noteq> []"
      by simp
    have before: "filter is_Rpc (trace ?s) = []"
      by (simp add: late_state_def demo_state_def)
    have built: "filter is_Rpc (trace ?s1) = [?H]"
      by (simp add: late_construct)
    show dc: "dispatched_call demo_world ''recent_changes'' ?s1 = (''wiki.getRecentChanges'', [PInt 2147483648])"
      unfolding late_construct snd_conv
      by (simp add: dispatched_call_def)
    have call: "wire_requests demo_world (trace ?s1) proxy ''wiki.getRecentChanges'' [PInt 2147483648] = []"
      for proxy
      by (simp add: wire_requests_def)
    from run_makes_handshake_and_one_call [OF flag late_credentials constructed available run]
    obtain proxy hs cs
      where hs: "filter is_Rpc (trace ?s1) = filter is_Rpc (trace ?s) @ hs"
        and cs: "cs = wire_requests demo_world (trace ?s1) proxy
                        (fst (dispatched_call demo_world ''recent_changes'' ?s1))
                        (snd (dispatched_call demo_world ''recent_changes'' ?s1))"
        and total: "filter is_Rpc (trace (snd (Callback_init demo_world ''recent_changes'' ?s)))
                      = filter is_Rpc (trace ?s) @ hs @ cs"
      by blast
    from hs before built have "hs = [?H]" by simp
    moreover from cs dc call have "cs = []" by simp
    ultimately show "filter is_Rpc (trace (snd (Callback_init demo_world ''recent_changes'' ?s))) = [?H]"
      using total before by simp
  qed
  from first flag constructed args second flag' constructed' call' show ?thesis by simp
qed

text \<open>
  C6, as the claim states it: every non-empty result is formatted according to its
  structure. The format follows the flag instead. Against a wiki that answers
  \<^verbatim>\<open>wiki.getAllPages\<close> with a list of mappings, \<^verbatim>\<open>--allpages\<close> prints each mapping
  on one line as \<^verbatim>\<open>str\<close> gives it, with no \<^verbatim>\<open>key: value\<close> line; with a string for
  \<^verbatim>\<open>wiki.getPageInfo\<close>, \<^verbatim>\<open>--info\<close> raises AttributeError and prints nothing; with
  a list for \<^verbatim>\<open>wiki.getPage\<close>, \<^verbatim>\<open>--raw\<close> prints the list on one line.
\<close>

theorem format_chosen_by_flag:
  "stdout (snd (Callback_init other_world ''all_pages'' (demo_state []))) = [''{...}'']
   \<and> fst (Callback_init other_world ''page_info'' (demo_state [''start''])) = Inl AttributeError
   \<and> stdout (snd (Callback_init other_world ''page_info'' (demo_state [''start'']))) = []
   \<and> stdout (snd (Callback_init other_world ''page'' (demo_state [''start'']))) = [''[...]'']"
proof -
  have constructed: "construct other_world (demo_state args)
                       = (Inr (), snd (construct other_world (demo_state args)))" for args
    by (simp add: other_construct demo_construct)
  have dispatched: "dispatch other_world dest t = (Inr (data, format), snd (dispatch other_world dest t))"
    if "fst (dispatch other_world dest t) = Inr (data, format)" for dest t data format
    using that by (metis prod.collapse)
  have quiet: "stdout (snd (dispatch other_world dest (snd (construct other_world (demo_state args))))) = []"
    for dest args
    using dispatch_stdout [OF prod.collapse [symmetric]] constructed [of args]
    by (simp add: other_construct demo_construct)
  have shown: "str other_world (Obj (PDict kvs)) = ''{...}''" "str other_world (Obj (PList xs)) = ''[...]''"
    for kvs xs
    by (simp_all add: str_def other_world_def demo_world_def)
  have "Callback_init other_world ''all_pages'' (demo_state [])
          = print_result other_world (PList [PDict [(''id'', PStr ''start'')]]) ''list''
              (snd (dispatch other_world ''all_pages'' (snd (construct other_world (demo_state [])))))"
    by (rule run_eq [OF demo_credentials constructed dispatched [OF other_dispatch(1)]])
  then have a: "stdout (snd (Callback_init other_world ''all_pages'' (demo_state []))) = [''{...}'']"
    by (simp add: print_result_def quiet shown)
  have "Callback_init other_world ''page_info'' (demo_state [''start''])
          = print_result other_world (PStr ''start'') ''dict''
              (snd (dispatch other_world ''page_info'' (snd (construct other_world (demo_state [''start''])))))"
    by (rule run_eq [OF demo_credentials constructed dispatched [OF other_dispatch(2)]])
  then have b: "fst (Callback_init other_world ''page_info'' (demo_state [''start''])) = Inl AttributeError"
    and c: "stdout (snd (Callback_init other_world ''page_info'' (demo_state [''start'']))) = []"
    by (simp_all add: print_result_def quiet)
  have "Callback_init other_world ''page'' (demo_state [''start''])
          = print_result other_world (PList [PStr ''a'', PStr ''b'']) ''plain''
              (snd (dispatch other_world ''page'' (snd (construct other_world (demo_state [''start''])))))"
    by (rule run_eq [OF demo_credentials constructed dispatched [OF other_dispatch(3)]])
  then have d: "stdout (snd (Callback_init other_world ''page'' (demo_state [''start'']))) = [''[...]'']"
    by (simp add: print_result_def quiet shown)
  from a b c d show ?thesis by simp
qed

text \<open>
  C6, amended. When the construction succeeds and the dispatched method returns a
  non-empty result, the result is printed in the format of the flag, whatever its
  structure. Under \<^verbatim>\<open>'plain'\<close> (page, page_html) \<^verbatim>\<open>str\<close> of the result is printed on
  one line, a string as its own text. Under \<^verbatim>\<open>'list'\<close> (backlinks, all_pages) what
  iterating the result yields is printed one item per line: the items of a list, the
  characters of a string, the keys of a dictionary; a result that cannot be iterated
  raises TypeError and nothing is printed. Under \<^verbatim>\<open>'dict'\<close> (page_info, page_versions,
  links, recent_changes) a dictionary is printed as \<^verbatim>\<open>key: value\<close> lines in the order
  of its keys; of a list, the \<^verbatim>\<open>key: value\<close> lines of each dictionary are printed,
  followed by the separator \<^verbatim>\<open>print "\n"\<close>, up to the first item that is not a
  dictionary, where the run ends with AttributeError; any other result raises
  AttributeError and nothing is printed.
\<close>

theorem result_formatted_by_flag:
  assumes "opt_value (values_user (parser s)) \<noteq> []"
    and "opt_value (values_wiki (parser s)) \<noteq> []"
    and "opt_value (values_passwd (parser s)) \<noteq> []"
    and "construct w s = (Inr u, s1)"
    and "dispatch w dest s1 = (Inr (data, format), s2)"
    and "truthy data"
  shows "((dest = ''page'' \<or> dest = ''page_html'') \<and> format = ''plain''
          \<and> Callback_init w dest s = (Inr (), s2\<lparr>stdout := stdout s @ [str w (Obj data)]\<rparr>)
          \<and> str w (Obj (PStr text)) = text)
       \<or> ((dest = ''backlinks'' \<or> dest = ''all_pages'') \<and> format = ''list''
          \<and> Callback_init w dest s =
              (case data of
                 PList items \<Rightarrow> (Inr (), s2\<lparr>stdout := stdout s @ map (\<lambda>item. str w (Obj item)) items\<rparr>)
               | PStr cs \<Rightarrow> (Inr (), s2\<lparr>stdout := stdout s @ map (\<lambda>c. [c]) cs\<rparr>)
               | PDict kvs \<Rightarrow> (Inr (), s2\<lparr>stdout := stdout s @ map fst kvs\<rparr>)
               | PNone \<Rightarrow> (Inl TypeError, s2)
               | PBool b \<Rightarrow> (Inl TypeError, s2)
               | PInt i \<Rightarrow> (Inl TypeError, s2)))
       \<or> ((dest = ''page_info'' \<or> dest = ''page_versions'' \<or> dest = ''links'' \<or> dest = ''recent_changes'')
          \<and> format = ''dict''
          \<and> Callback_init w dest s =
              (case data of
                 PDict kvs \<Rightarrow>
                   (Inr (), s2\<lparr>stdout := stdout s @ map (\<lambda>(key, v). key @ '': '' @ str w (Obj v)) kvs\<rparr>)
               | PList items \<Rightarrow>
                   (if list_all is_mapping items then Inr () else Inl AttributeError,
                    s2\<lparr>stdout := stdout s
                         @ concat (map (\<lambda>item. case item of
                                                   PDict kvs \<Rightarrow>
                                                     map (\<lambda>(key, v). key @ '': '' @ str w (Obj v)) kvs
                                                       @ [[CHR 10]]
                                                 | _ \<Rightarrow> [])
                                     (takeWhile is_mapping items))\<rparr>)
               | PNone \<Rightarrow> (Inl AttributeError, s2)
               | PBool b \<Rightarrow> (Inl AttributeError, s2)
               | PInt i \<Rightarrow> (Inl AttributeError, s2)
               | PStr cs \<Rightarrow> (Inl AttributeError, s2)))"
proof -
  have run: "Callback_init w dest s = print_result w data format s2"
    using assms(1-5) by (rule run_eq)
  have quiet: "stdout s2 = stdout s"
    using dispatch_stdout [OF assms(5)] construct_stdout [OF assms(4)] by simp
  have line: "key_value_line w = (\<lambda>(key, v). key @ '': '' @ str w (Obj v))"
    by (auto simp: key_value_line_def fun_eq_iff)
  have as_is: "str w (Obj (PStr cs)) = cs" for cs
    by (simp add: str_def)
  from dispatch_format [OF assms(5)] show ?thesis
  proof (rule three_formats)
    assume plain: "dest = ''page'' \<or> dest = ''page_html''" "format = ''plain''"
    with run quiet assms(6) show ?thesis
      by (simp add: print_result_def as_is)
  next
    assume list: "dest = ''backlinks'' \<or> dest = ''all_pages''" "format = ''list''"
    have "print_result w data ''list'' s2 =
              (case data of
                 PList items \<Rightarrow> (Inr (), s2\<lparr>stdout := stdout s @ map (\<lambda>item. str w (Obj item)) items\<rparr>)
               | PStr cs \<Rightarrow> (Inr (), s2\<lparr>stdout := stdout s @ map (\<lambda>c. [c]) cs\<rparr>)
               | PDict kvs \<Rightarrow> (Inr (), s2\<lparr>stdout := stdout s @ map fst kvs\<rparr>)
               | PNone \<Rightarrow> (Inl TypeError, s2)
               | PBool b \<Rightarrow> (Inl TypeError, s2)
               | PInt i \<Rightarrow> (Inl TypeError, s2))"
      using assms(6) quiet by (cases data) (simp_all add: print_result_def as_is comp_def)
    with run list show ?thesis by simp
  next
    assume dict: "dest = ''page_info'' \<or> dest = ''page_versions'' \<or> dest = ''links'' \<or> dest = ''recent_changes''"
      and format: "format = ''dict''"
    have "print_result w data ''dict'' s2 =
              (case data of
                 PDict kvs \<Rightarrow>
                   (Inr (), s2\<lparr>stdout := stdout s @ map (\<lambda>(key, v). key @ '': '' @ str w (Obj v)) kvs\<rparr>)
               | PList items \<Rightarrow>
                   (if list_all is_mapping items then Inr () else Inl AttributeError,
                    s2\<lparr>stdout := stdout s
                         @ concat (map (\<lambda>item. case item of
                                                   PDict kvs \<Rightarrow>
                                                     map (\<lambda>(key, v). key @ '': '' @ str w (Obj v)) kvs
                                                       @ [[CHR 10]]
                                                 | _ \<Rightarrow> [])
                                     (takeWhile is_mapping items))\<rparr>)
               | PNone \<Rightarrow> (Inl AttributeError, s2)
               | PBool b \<Rightarrow> (Inl AttributeError, s2)
               | PInt i \<Rightarrow> (Inl AttributeError, s2)
               | PStr cs \<Rightarrow> (Inl AttributeError, s2))"
      using assms(6) quiet by (cases data) (simp_all add: print_result_def print_dicts_eq line)
    with run dict format show ?thesis by simp
  qed
qed

theorem result_formatted_by_flag_witness:
  "fst (dispatch demo_world ''page'' (snd (construct demo_world (demo_state [''start'']))))
     = Inr (PStr ''Hello'', ''plain'')
   \<and> truthy (PStr ''Hello'')
   \<and> stdout (snd (Callback_init demo_world ''page'' (demo_state [''start'']))) = [''Hello'']
   \<and> stdout (snd (Callback_init demo_world ''all_pages'' (demo_state []))) = [''start'', ''wiki:syntax'']
   \<and> stdout (snd (Callback_init demo_world ''page_info'' (demo_state [''start''])))
       = [''name: start'', ''author: alice'']
   \<and> stdout (snd (Callback_init demo_world ''links'' (demo_state [''start''])))
       = [''type: local'', ''page: wiki:syntax'', [CHR 10], ''type: extern'', [CHR 10]]
   \<and> fst (Callback_init other_world ''page_info'' (demo_state [''start''])) = Inl AttributeError"
proof -
  have constructed: "construct demo_world (demo_state args) = (Inr (), snd (construct demo_world (demo_state args)))"
    for args
    by (simp add: demo_construct)
  have constructed': "construct other_world (demo_state args) = (Inr (), snd (construct other_world (demo_state args)))"
    for args
    by (simp add: other_construct demo_construct)
  have dispatched: "dispatch w dest t = (Inr (data, format), snd (dispatch w dest t))"
    if "fst (dispatch w dest t) = Inr (data, format)" for w dest t data format
    using that by (metis prod.collapse)
  have start: "stdout (demo_state args) = []" for args
    by (simp add: demo_state_def)
  have "stdout (snd (Callback_init demo_world ''page'' (demo_state [''start'']))) = [''Hello'']"
    using result_formatted_by_flag [OF demo_credentials constructed dispatched [OF demo_dispatch(2)]]
    by (simp add: start str_def)
  moreover have "stdout (snd (Callback_init demo_world ''all_pages'' (demo_state []))) = [''start'', ''wiki:syntax'']"
    using result_formatted_by_flag [OF demo_credentials constructed dispatched [OF demo_dispatch(3)]]
    by (simp add: start str_def)
  moreover have "stdout (snd (Callback_init demo_world ''page_info'' (demo_state [''start''])))
                   = [''name: start'', ''author: alice'']"
    using result_formatted_by_flag [OF demo_credentials constructed dispatched [OF demo_dispatch(4)]]
    by (simp add: start str_def)
  moreover have "stdout (snd (Callback_init demo_world ''links'' (demo_state [''start''])))
                   = [''type: local'', ''page: wiki:syntax'', [CHR 10], ''type: extern'', [CHR 10]]"
    using result_formatted_by_flag [OF demo_credentials constructed dispatched [OF demo_dispatch(5)]]
    by (simp add: start str_def)
  moreover have "fst (Callback_init other_world ''page_info'' (demo_state [''start''])) = Inl AttributeError"
    using result_formatted_by_flag [OF demo_credentials constructed' dispatched [OF other_dispatch(2)]]
    by simp
  ultimately show ?thesis using demo_dispatch(2) by simp
qed

text \<open>
  C9. When the construction succeeds and the dispatched method returns a result that is
  false in Python (None, an empty string, list or dictionary, 0, False), the run ends
  normally and standard output is as it was before the run.
\<close>

theorem falsy_result_prints_nothing:
  assumes "opt_value (values_user (parser s)) \<noteq> []"
    and "opt_value (values_wiki (parser s)) \<noteq> []"
    and "opt_value (values_passwd (parser s)) \<noteq> []"
    and "construct w s = (Inr u, s1)"
    and "dispatch w dest s1 = (Inr (data, format), s2)"
    and "\<not> truthy data"
  shows "Callback_init w dest s = (Inr (), s2) \<and> stdout s2 = stdout s"
proof -
  have "Callback_init w dest s = print_result w data format s2"
    using assms(1-5) by (rule run_eq)
  moreover have "print_result w data format s2 = (Inr (), s2)"
    using assms(6) by (simp add: print_result_def)
  moreover have "stdout s2 = stdout s"
    using dispatch_stdout [OF assms(5)] construct_stdout [OF assms(4)] by simp
  ultimately show ?thesis by simp
qed

theorem falsy_result_prints_nothing_witness:
  "construct demo_world (demo_state [''start''])
     = (Inr (), snd (construct demo_world (demo_state [''start''])))
   \<and> dispatch demo_world ''backlinks'' (snd (construct demo_world (demo_state [''start''])))
     = (Inr (PList [], ''list''),
        snd (dispatch demo_world ''backlinks'' (snd (construct demo_world (demo_state [''start''])))))
   \<and> \<not> truthy (PList [])
   \<and> Callback_init demo_world ''backlinks'' (demo_state [''start''])
     = (Inr (), snd (dispatch demo_world ''backlinks'' (snd (construct demo_world (demo_state [''start''])))))
   \<and> stdout (snd (Callback_init demo_world ''backlinks'' (demo_state [''start'']))) = []"
proof -
  let ?s = "demo_state [''start'']"
  let ?s1 = "snd (construct demo_world ?s)"
  let ?s2 = "snd (dispatch demo_world ''backlinks'' ?s1)"
  have constructed: "construct demo_world ?s = (Inr (), ?s1)"
    by (simp add: demo_construct)
  have dispatched: "dispatch demo_world ''backlinks'' ?s1 = (Inr (PList [], ''list''), ?s2)"
    using demo_dispatch(1) by (metis prod.collapse)
  have falsy: "\<not> truthy (PList [])" by simp
  have "stdout ?s = []" by (simp add: demo_state_def)
  with falsy_result_prints_nothing [OF demo_credentials constructed dispatched falsy]
    constructed dispatched show ?thesis by simp
qed

end
